theory Spec2Isabelle
  imports Complex_Main "HOL-Library.Word" "HOL-Library.List_Lexorder" "HOL-Library.Multiset"
begin

unbundle bit_operations_syntax

section \<open>Python values\<close>

text \<open>
  A Python \<open>str\<close> is a sequence of Unicode code points, a \<open>bytes\<close> value a sequence of
  octets. The two are kept apart by their types, as Python 3 keeps them apart.
  Strings are ordered lexicographically by code point (\<open>List_Lexorder\<close>), which is
  the order of Python's \<open><\<close> on \<open>str\<close>.
\<close>

type_synonym pystr = "nat list"
type_synonym byte = "8 word"
type_synonym bytes = "byte list"

definition ustr :: "string \<Rightarrow> pystr" where
  "ustr cs = map of_char cs"

definition bstr :: "string \<Rightarrow> bytes" where
  "bstr cs = map of_char cs"

text \<open>
  The values a caller can hand to the constructor and to the property setters, which
  test them with \<open>not x\<close> and \<open>isinstance(x, str)\<close> (the case \<open>PyStr\<close>).
\<close>

datatype pyval =
    PyNone
  | PyBool bool
  | PyInt int
  | PyStr pystr
  | PyBytes bytes
  | PyList "pyval list"

fun truthy :: "pyval \<Rightarrow> bool" where
  "truthy PyNone = False"
| "truthy (PyBool b) = b"
| "truthy (PyInt i) = (i \<noteq> 0)"
| "truthy (PyStr s) = (s \<noteq> [])"
| "truthy (PyBytes b) = (b \<noteq> [])"
| "truthy (PyList l) = (l \<noteq> [])"

text \<open>The text of \<open>type(x)\<close> inside an f-string; \<open>squote\<close> puts a name in single quotes.\<close>

definition squote :: "string \<Rightarrow> string" where
  "squote s = [CHR 0x27] @ s @ [CHR 0x27]"

fun type_repr :: "pyval \<Rightarrow> string" where
  "type_repr PyNone = ''<class '' @ squote ''NoneType'' @ ''>''"
| "type_repr (PyBool b) = ''<class '' @ squote ''bool'' @ ''>''"
| "type_repr (PyInt i) = ''<class '' @ squote ''int'' @ ''>''"
| "type_repr (PyStr s) = ''<class '' @ squote ''str'' @ ''>''"
| "type_repr (PyBytes b) = ''<class '' @ squote ''bytes'' @ ''>''"
| "type_repr (PyList l) = ''<class '' @ squote ''list'' @ ''>''"

text \<open>
  Every \<open>raise\<close> of the source and of the library calls it makes is a value of this
  type; a function that can raise returns \<open>error + 'a\<close>, \<open>Inl\<close> being the exception.
\<close>

datatype error =
    Exception string
  | TypeError string
  | AttributeError string
  | IndexError
  | UnicodeEncodeError
  | UnicodeDecodeError
  | JSONDecodeError
  | RequestException string

section \<open>Credentials: the constructor and the property setters\<close>

text \<open>
  The three private attributes of a \<open>Gallery\<close> object. An attribute that has not
  been assigned yet is \<open>None\<close>: \<open>__init__\<close> starts from an object without attributes
  and assigns them one after the other through the setters.
\<close>

record gallery =
  attr_api_location :: "pystr option"
  attr_api_key :: "pystr option"
  attr_api_secret :: "pystr option"

definition new_object :: gallery where
  "new_object = \<lparr>attr_api_location = None, attr_api_key = None, attr_api_secret = None\<rparr>"

definition api_location :: "gallery \<Rightarrow> error + pystr" where
  "api_location self =
     (case attr_api_location self of
        None \<Rightarrow> Inl (AttributeError ''_api_location'')
      | Some v \<Rightarrow> Inr v)"

definition set_api_location :: "gallery \<Rightarrow> pyval \<Rightarrow> error + gallery" where
  "set_api_location self loc =
     (if \<not> truthy loc then Inl (Exception (squote ''api_location'' @ '' cannot be empty''))
      else case loc of
             PyStr s \<Rightarrow> Inr (self\<lparr>attr_api_location := Some s\<rparr>)
           | _ \<Rightarrow>
               Inl (TypeError
                 (''Invalid type '' @ type_repr loc @ '' for variable '' @ squote ''api_location'')))"

definition api_key :: "gallery \<Rightarrow> error + pystr" where
  "api_key self =
     (case attr_api_key self of
        None \<Rightarrow> Inl (AttributeError ''_api_key'')
      | Some v \<Rightarrow> Inr v)"

definition set_api_key :: "gallery \<Rightarrow> pyval \<Rightarrow> error + gallery" where
  "set_api_key self key =
     (if \<not> truthy key then Inl (Exception (squote ''api_key'' @ '' cannot be empty''))
      else case key of
             PyStr s \<Rightarrow> Inr (self\<lparr>attr_api_key := Some s\<rparr>)
           | _ \<Rightarrow>
               Inl (TypeError
                 (''Invalid type: '' @ type_repr key @ '' for variable '' @ squote ''api_key'')))"

definition api_secret :: "gallery \<Rightarrow> error + pystr" where
  "api_secret self =
     (case attr_api_secret self of
        None \<Rightarrow> Inl (AttributeError ''_api_secret'')
      | Some v \<Rightarrow> Inr v)"

definition set_api_secret :: "gallery \<Rightarrow> pyval \<Rightarrow> error + gallery" where
  "set_api_secret self secret_key =
     (if \<not> truthy secret_key then Inl (Exception (squote ''api_secret'' @ '' cannot be empty''))
      else case secret_key of
             PyStr s \<Rightarrow> Inr (self\<lparr>attr_api_secret := Some s\<rparr>)
           | _ \<Rightarrow>
               Inl (TypeError
                 (''Invalid type '' @ type_repr secret_key @ '' for variable '' @ squote ''api_secret'')))"

text \<open>\<open>Gallery.__init__\<close>: the three assignments in the order of the source.\<close>

definition Gallery :: "pyval \<Rightarrow> pyval \<Rightarrow> pyval \<Rightarrow> error + gallery" where
  "Gallery loc key secret_key =
     (case set_api_location new_object loc of
        Inl e \<Rightarrow> Inl e
      | Inr s1 \<Rightarrow>
          (case set_api_key s1 key of
             Inl e \<Rightarrow> Inl e
           | Inr s2 \<Rightarrow> set_api_secret s2 secret_key))"

section \<open>Library functions the signer calls\<close>

text \<open>
  The functions of Python's standard library that \<open>generate_signature\<close> calls are
  written out here after their documented behaviour, so that a signature can be
  computed: the UTF-8 and ASCII codecs, \<open>urllib.parse.quote\<close>, \<open>quote_plus\<close> and
  \<open>urlencode\<close> (\<open>requests.utils.quote\<close> is \<open>urllib.parse.quote\<close>), SHA-1
  (FIPS 180-4), HMAC (RFC 2104) and Base64 (RFC 4648).
\<close>

subsection \<open>Codecs\<close>

text \<open>
  \<open>str.encode("utf-8")\<close> with \<open>errors="strict"\<close>: a surrogate code point cannot be
  encoded. Python has no code point beyond U+10FFFF; the model refuses one as well.
\<close>

definition utf8_char :: "nat \<Rightarrow> error + bytes" where
  "utf8_char c =
     (if c < 0x80 then Inr [of_nat c]
      else if c < 0x800 then Inr [of_nat (0xC0 + c div 64), of_nat (0x80 + c mod 64)]
      else if 0xD800 \<le> c \<and> c \<le> 0xDFFF then Inl UnicodeEncodeError
      else if c < 0x10000 then
        Inr [of_nat (0xE0 + c div 4096), of_nat (0x80 + c div 64 mod 64), of_nat (0x80 + c mod 64)]
      else if c < 0x110000 then
        Inr [of_nat (0xF0 + c div 262144), of_nat (0x80 + c div 4096 mod 64),
             of_nat (0x80 + c div 64 mod 64), of_nat (0x80 + c mod 64)]
      else Inl UnicodeEncodeError)"

fun utf8_encode :: "pystr \<Rightarrow> error + bytes" where
  "utf8_encode [] = Inr []"
| "utf8_encode (c # cs) =
     (case utf8_char c of
        Inl e \<Rightarrow> Inl e
      | Inr bs \<Rightarrow> (case utf8_encode cs of Inl e \<Rightarrow> Inl e | Inr rest \<Rightarrow> Inr (bs @ rest)))"

text \<open>\<open>bytes(s, "ascii")\<close>: every code point must be below 128.\<close>

definition ascii_encode :: "pystr \<Rightarrow> error + bytes" where
  "ascii_encode s =
     (if list_all (\<lambda>c. c < 128) s then Inr (map of_nat s) else Inl UnicodeEncodeError)"

text \<open>\<open>safe.encode("ascii", "ignore")\<close>: the characters beyond ASCII are dropped.\<close>

definition ascii_ignore :: "pystr \<Rightarrow> bytes" where
  "ascii_ignore s = map of_nat (filter (\<lambda>c. c < 128) s)"

subsection \<open>Percent-encoding\<close>

definition always_safe :: bytes where
  "always_safe = bstr ''ABCDEFGHIJKLMNOPQRSTUVWXYZabcdefghijklmnopqrstuvwxyz0123456789_.-~''"

definition hex_digit :: "nat \<Rightarrow> nat" where
  "hex_digit n = (if n < 10 then 48 + n else 55 + n)"

text \<open>\<open>'%{:02X}'.format(b)\<close>\<close>

definition percent :: "byte \<Rightarrow> pystr" where
  "percent b = [37, hex_digit (unat b div 16), hex_digit (unat b mod 16)]"

definition quote_from_bytes :: "bytes \<Rightarrow> bytes \<Rightarrow> pystr" where
  "quote_from_bytes safe bs =
     concat (map (\<lambda>b. if b \<in> set (always_safe @ safe) then [unat b] else percent b) bs)"

definition quote :: "pystr \<Rightarrow> pystr \<Rightarrow> error + pystr" where
  "quote safe string =
     (case utf8_encode string of
        Inl e \<Rightarrow> Inl e
      | Inr bs \<Rightarrow> Inr (quote_from_bytes (ascii_ignore safe) bs))"

text \<open>\<open>s.replace(' ', '+')\<close>\<close>

definition space_to_plus :: "pystr \<Rightarrow> pystr" where
  "space_to_plus s = map (\<lambda>c. if c = 32 then 43 else c) s"

definition quote_plus :: "pystr \<Rightarrow> pystr \<Rightarrow> error + pystr" where
  "quote_plus safe string =
     (if 32 \<notin> set string then quote safe string
      else case quote (safe @ [32]) string of
             Inl e \<Rightarrow> Inl e
           | Inr q \<Rightarrow> Inr (space_to_plus q))"

text \<open>\<open>quote_plus\<close> of a \<open>bytes\<close> value: the same, without the UTF-8 step.\<close>

definition quote_plus_bytes :: "pystr \<Rightarrow> bytes \<Rightarrow> pystr" where
  "quote_plus_bytes safe bs =
     (if 32 \<notin> set bs then quote_from_bytes (ascii_ignore safe) bs
      else space_to_plus (quote_from_bytes (ascii_ignore (safe @ [32])) bs))"

text \<open>\<open>sep.join(parts)\<close>\<close>

fun join :: "pystr \<Rightarrow> pystr list \<Rightarrow> pystr" where
  "join sep [] = []"
| "join sep [x] = x"
| "join sep (x # y # ys) = x @ sep @ join sep (y # ys)"

section \<open>Request parameters\<close>

text \<open>
  A parameter value is text, or the \<open>bytes\<close> signature once it has been added. A
  \<open>dict\<close> is the list of its items in insertion order; its keys are distinct.
\<close>

datatype pval = PStr pystr | PBytes bytes

type_synonym params = "(pystr \<times> pval) list"

text \<open>\<open>d.update({k: v})\<close>: an existing key keeps its place, a new one goes last.\<close>

fun dict_update :: "params \<Rightarrow> pystr \<Rightarrow> pval \<Rightarrow> params" where
  "dict_update [] k v = [(k, v)]"
| "dict_update ((k', v') # d) k v =
     (if k' = k then (k, v) # d else (k', v') # dict_update d k v)"

text \<open>
  \<open>sorted(params.items())\<close> returns a new list. The items are compared as tuples; the
  keys of a dict are distinct, so two items are always ordered by their keys, and
  the values are never compared.
\<close>

definition sorted_items :: "params \<Rightarrow> params" where
  "sorted_items d = sort_key fst d"

text \<open>\<open>urllib.parse.urlencode(query)\<close>, with its defaults \<open>safe=''\<close>, \<open>quote_via=quote_plus\<close>.\<close>

definition quote_via :: "pval \<Rightarrow> error + pystr" where
  "quote_via v = (case v of PStr s \<Rightarrow> quote_plus [] s | PBytes b \<Rightarrow> Inr (quote_plus_bytes [] b))"

fun urlencode_items :: "params \<Rightarrow> error + pystr list" where
  "urlencode_items [] = Inr []"
| "urlencode_items ((k, v) # d) =
     (case quote_via (PStr k) of
        Inl e \<Rightarrow> Inl e
      | Inr qk \<Rightarrow>
          (case quote_via v of
             Inl e \<Rightarrow> Inl e
           | Inr qv \<Rightarrow>
               (case urlencode_items d of
                  Inl e \<Rightarrow> Inl e
                | Inr l \<Rightarrow> Inr ((qk @ ustr ''='' @ qv) # l))))"

definition urlencode :: "params \<Rightarrow> error + pystr" where
  "urlencode d = (case urlencode_items d of Inl e \<Rightarrow> Inl e | Inr l \<Rightarrow> Inr (join (ustr ''&'') l))"

subsection \<open>SHA-1, HMAC and Base64\<close>

type_synonym word32 = "32 word"

definition rotl :: "nat \<Rightarrow> word32 \<Rightarrow> word32" where
  "rotl n x = push_bit n x OR drop_bit (32 - n) x"

text \<open>Big-endian octets to words and back.\<close>

definition be_word :: "byte \<Rightarrow> byte \<Rightarrow> byte \<Rightarrow> byte \<Rightarrow> word32" where
  "be_word a b c d =
     push_bit 24 (ucast a) OR push_bit 16 (ucast b) OR push_bit 8 (ucast c) OR ucast d"

fun words_of :: "bytes \<Rightarrow> word32 list" where
  "words_of (a # b # c # d # rest) = be_word a b c d # words_of rest"
| "words_of _ = []"

definition word_bytes :: "word32 \<Rightarrow> bytes" where
  "word_bytes w = [ucast (drop_bit 24 w), ucast (drop_bit 16 w), ucast (drop_bit 8 w), ucast w]"

text \<open>
  Padding: the bit 1, then zero octets up to 56 modulo 64, then the length of the
  message in bits as a 64-bit big-endian number.
\<close>

definition sha1_pad :: "bytes \<Rightarrow> bytes" where
  "sha1_pad m =
     m @ [0x80] @ replicate ((119 - length m mod 64) mod 64) 0
       @ word_bytes (of_nat (8 * length m div 2 ^ 32))
       @ word_bytes (of_nat (8 * length m))"

text \<open>
  The message schedule: \<open>schedule n ws\<close> gives the next \<open>n\<close> words, \<open>ws\<close> being the
  sixteen words before them; \<open>W\<^sub>t = rotl 1 (W\<^sub>t\<^sub>-\<^sub>3 XOR W\<^sub>t\<^sub>-\<^sub>8 XOR W\<^sub>t\<^sub>-\<^sub>1\<^sub>4 XOR W\<^sub>t\<^sub>-\<^sub>1\<^sub>6)\<close>.
\<close>

fun schedule :: "nat \<Rightarrow> word32 list \<Rightarrow> word32 list" where
  "schedule 0 ws = []"
| "schedule (Suc n) [] = []"
| "schedule (Suc n) (w # rest) =
     w # schedule n (rest @ [rotl 1 (rest ! 12 XOR rest ! 7 XOR rest ! 1 XOR w)])"

type_synonym chain = "word32 \<times> word32 \<times> word32 \<times> word32 \<times> word32"

definition f_ch :: "word32 \<Rightarrow> word32 \<Rightarrow> word32 \<Rightarrow> word32" where
  "f_ch b c d = (b AND c) OR (NOT b AND d)"

definition f_parity :: "word32 \<Rightarrow> word32 \<Rightarrow> word32 \<Rightarrow> word32" where
  "f_parity b c d = b XOR c XOR d"

definition f_maj :: "word32 \<Rightarrow> word32 \<Rightarrow> word32 \<Rightarrow> word32" where
  "f_maj b c d = (b AND c) OR (b AND d) OR (c AND d)"

fun sha1_round ::
  "(word32 \<Rightarrow> word32 \<Rightarrow> word32 \<Rightarrow> word32) \<Rightarrow> word32 \<Rightarrow> chain \<Rightarrow> word32 \<Rightarrow> chain" where
  "sha1_round f k (a, b, c, d, e) w = (rotl 5 a + f b c d + e + k + w, a, rotl 30 b, c, d)"

fun chain_add :: "chain \<Rightarrow> chain \<Rightarrow> chain" where
  "chain_add (h0, h1, h2, h3, h4) (a, b, c, d, e) = (h0 + a, h1 + b, h2 + c, h3 + d, h4 + e)"

text \<open>One block of sixteen words: eighty rounds, twenty with each function and constant.\<close>

definition sha1_block :: "chain \<Rightarrow> word32 list \<Rightarrow> chain" where
  "sha1_block h ws =
     (let w = schedule 80 ws;
          s1 = foldl (sha1_round f_ch 0x5A827999) h (take 20 w);
          s2 = foldl (sha1_round f_parity 0x6ED9EBA1) s1 (take 20 (drop 20 w));
          s3 = foldl (sha1_round f_maj 0x8F1BBCDC) s2 (take 20 (drop 40 w));
          s4 = foldl (sha1_round f_parity 0xCA62C1D6) s3 (drop 60 w)
      in chain_add h s4)"

fun sha1_blocks :: "chain \<Rightarrow> word32 list \<Rightarrow> chain" where
  "sha1_blocks h ws =
     (if length ws < 16 then h else sha1_blocks (sha1_block h (take 16 ws)) (drop 16 ws))"

definition sha1_init :: chain where
  "sha1_init = (0x67452301, 0xEFCDAB89, 0x98BADCFE, 0x10325476, 0xC3D2E1F0)"

fun chain_bytes :: "chain \<Rightarrow> bytes" where
  "chain_bytes (a, b, c, d, e) =
     word_bytes a @ word_bytes b @ word_bytes c @ word_bytes d @ word_bytes e"

definition sha1 :: "bytes \<Rightarrow> bytes" where
  "sha1 m = chain_bytes (sha1_blocks sha1_init (words_of (sha1_pad m)))"

text \<open>
  \<open>hmac.new(key, msg, hashlib.sha1).digest()\<close>: a key longer than a block is hashed
  first, then filled with zeros to the block size of 64 octets.
\<close>

definition hmac_key :: "bytes \<Rightarrow> bytes" where
  "hmac_key key =
     (let k = (if length key > 64 then sha1 key else key) in k @ replicate (64 - length k) 0)"

definition hmac_sha1 :: "bytes \<Rightarrow> bytes \<Rightarrow> bytes" where
  "hmac_sha1 key msg =
     (let k = hmac_key key;
          inner = sha1 (map (\<lambda>b. b XOR 0x36) k @ msg)
      in sha1 (map (\<lambda>b. b XOR 0x5C) k @ inner))"

text \<open>\<open>base64.b64encode\<close>: three octets give four characters, with \<open>=\<close> as padding.\<close>

definition b64_alphabet :: bytes where
  "b64_alphabet = bstr ''ABCDEFGHIJKLMNOPQRSTUVWXYZabcdefghijklmnopqrstuvwxyz0123456789+/''"

definition b64_char :: "nat \<Rightarrow> byte" where
  "b64_char n = b64_alphabet ! (n mod 64)"

fun b64encode :: "bytes \<Rightarrow> bytes" where
  "b64encode (a # b # c # rest) =
     (let n = unat a * 65536 + unat b * 256 + unat c
      in [b64_char (n div 262144), b64_char (n div 4096), b64_char (n div 64), b64_char n]
         @ b64encode rest)"
| "b64encode [a, b] =
     (let n = unat a * 65536 + unat b * 256
      in [b64_char (n div 262144), b64_char (n div 4096), b64_char (n div 64), 0x3D])"
| "b64encode [a] =
     (let n = unat a * 65536
      in [b64_char (n div 262144), b64_char (n div 4096), 0x3D, 0x3D])"
| "b64encode [] = []"

subsection \<open>Decoding, upper case, decimal numbers\<close>

text \<open>
  \<open>bytes.decode("utf8")\<close>: the strict decoder, which refuses continuation octets out
  of place, overlong forms, surrogates and values beyond U+10FFFF.
\<close>

definition is_cont :: "byte \<Rightarrow> bool" where
  "is_cont b = (0x80 \<le> b \<and> b \<le> 0xBF)"

definition cont :: "byte \<Rightarrow> nat" where
  "cont b = unat b mod 64"

definition decoded :: "nat \<Rightarrow> error + pystr \<Rightarrow> error + pystr" where
  "decoded c r = (case r of Inl e \<Rightarrow> Inl e | Inr cs \<Rightarrow> Inr (c # cs))"

fun utf8_decode :: "bytes \<Rightarrow> error + pystr" where
  "utf8_decode [] = Inr []"
| "utf8_decode (b0 # bs) =
     (if b0 < 0x80 then decoded (unat b0) (utf8_decode bs)
      else if 0xC2 \<le> b0 \<and> b0 \<le> 0xDF then
        (case bs of
           b1 # r \<Rightarrow>
             if is_cont b1 then decoded ((unat b0 mod 32) * 64 + cont b1) (utf8_decode r)
             else Inl UnicodeDecodeError
         | _ \<Rightarrow> Inl UnicodeDecodeError)
      else if 0xE0 \<le> b0 \<and> b0 \<le> 0xEF then
        (case bs of
           b1 # b2 # r \<Rightarrow>
             (let c = (unat b0 mod 16) * 4096 + cont b1 * 64 + cont b2
              in if is_cont b1 \<and> is_cont b2 \<and> 0x800 \<le> c \<and> \<not> (0xD800 \<le> c \<and> c \<le> 0xDFFF)
                 then decoded c (utf8_decode r)
                 else Inl UnicodeDecodeError)
         | _ \<Rightarrow> Inl UnicodeDecodeError)
      else if 0xF0 \<le> b0 \<and> b0 \<le> 0xF4 then
        (case bs of
           b1 # b2 # b3 # r \<Rightarrow>
             (let c = (unat b0 mod 8) * 262144 + cont b1 * 4096 + cont b2 * 64 + cont b3
              in if is_cont b1 \<and> is_cont b2 \<and> is_cont b3 \<and> 0x10000 \<le> c \<and> c < 0x110000
                 then decoded c (utf8_decode r)
                 else Inl UnicodeDecodeError)
         | _ \<Rightarrow> Inl UnicodeDecodeError)
      else Inl UnicodeDecodeError)"

text \<open>
  \<open>str.upper()\<close>: the ASCII letters are mapped here; for a character beyond ASCII
  Python follows the Unicode case tables, which are a parameter of the model.
\<close>

definition upper :: "(nat \<Rightarrow> pystr) \<Rightarrow> pystr \<Rightarrow> pystr" where
  "upper tab s =
     concat (map (\<lambda>c. if 97 \<le> c \<and> c \<le> 122 then [c - 32] else if c < 128 then [c] else tab c) s)"

text \<open>\<open>str(n)\<close> for an integer.\<close>

fun digits :: "nat \<Rightarrow> pystr" where
  "digits n = (if n < 10 then [48 + n] else digits (n div 10) @ [48 + n mod 10])"

definition str_int :: "int \<Rightarrow> pystr" where
  "str_int i = (if i < 0 then 45 # digits (nat (- i)) else digits (nat i))"

section \<open>The environment: random source, clock and network\<close>

text \<open>
  What \<open>requests.get\<close> and \<open>requests.post\<close> are called with; an argument that is not
  passed is \<open>None\<close>. The payload and the parsed documents have the type \<open>'j\<close>.
\<close>

datatype verb = GET | POST

record 'j request =
  req_verb :: verb
  req_url :: pystr
  req_params :: params
  req_json :: "'j option"
  req_headers :: "(pystr \<times> pystr) list option"

record response =
  status_code :: int
  content :: bytes

text \<open>
  The parts of the run-time the client calls and this development does not define:
  the Unicode tables of \<open>str.upper\<close>, \<open>random\<close>'s \<open>_randbelow\<close> over the state of the
  generator, the value \<open>time.time()\<close> returns during the call, the server's answer
  to a request, and \<open>json.loads\<close>.
\<close>

record ('r, 'j) env =
  unicode_upper :: "nat \<Rightarrow> pystr"
  randbelow :: "nat \<Rightarrow> 'r \<Rightarrow> nat \<times> 'r"
  time_time :: real
  respond :: "'j request \<Rightarrow> error + response"
  json_loads :: "pystr \<Rightarrow> error + 'j"

text \<open>The state a call changes: the random generator, and the requests sent so far.\<close>

record ('r, 'j) world =
  rng :: 'r
  sent :: "'j request list"

definition requests_get ::
  "('r, 'j) env \<Rightarrow> pystr \<Rightarrow> params \<Rightarrow> ('r, 'j) world \<Rightarrow> (error + response) \<times> ('r, 'j) world" where
  "requests_get env url params w =
     (let req = \<lparr>req_verb = GET, req_url = url, req_params = params,
                 req_json = None, req_headers = None\<rparr>
      in (respond env req, w\<lparr>sent := sent w @ [req]\<rparr>))"

definition requests_post ::
  "('r, 'j) env \<Rightarrow> pystr \<Rightarrow> 'j option \<Rightarrow> (pystr \<times> pystr) list option \<Rightarrow> params \<Rightarrow>
   ('r, 'j) world \<Rightarrow> (error + response) \<times> ('r, 'j) world" where
  "requests_post env url js hdrs params w =
     (let req = \<lparr>req_verb = POST, req_url = url, req_params = params,
                 req_json = js, req_headers = hdrs\<rparr>
      in (respond env req, w\<lparr>sent := sent w @ [req]\<rparr>))"

text \<open>\<open>random.choice(seq)\<close>: \<open>seq[_randbelow(len(seq))]\<close>.\<close>

definition random_choice ::
  "('r, 'j) env \<Rightarrow> pystr \<Rightarrow> ('r, 'j) world \<Rightarrow> (error + nat) \<times> ('r, 'j) world" where
  "random_choice env seq w =
     (if seq = [] then (Inl IndexError, w)
      else case randbelow env (length seq) (rng w) of
             (k, r) \<Rightarrow> (if k < length seq then Inr (seq ! k) else Inl IndexError, w\<lparr>rng := r\<rparr>))"

section \<open>The signer\<close>

definition tmp_string :: pystr where
  "tmp_string =
     ustr ''ABCDEFGHIJKLMNOPQRSTUVWXYZ'' @ ustr ''0123456789'' @ ustr ''abcdefghijklmnopqrstuvwxyz''"

text \<open>The list comprehension of \<open>generate_nonce\<close>: one \<open>random.choice\<close> for each index.\<close>

fun nonce_chars ::
  "('r, 'j) env \<Rightarrow> nat \<Rightarrow> ('r, 'j) world \<Rightarrow> (error + pystr) \<times> ('r, 'j) world" where
  "nonce_chars env 0 w = (Inr [], w)"
| "nonce_chars env (Suc n) w =
     (case random_choice env tmp_string w of
        (Inl e, w1) \<Rightarrow> (Inl e, w1)
      | (Inr c, w1) \<Rightarrow>
          (case nonce_chars env n w1 of
             (Inl e, w2) \<Rightarrow> (Inl e, w2)
           | (Inr cs, w2) \<Rightarrow> (Inr (c # cs), w2)))"

text \<open>
  \<open>generate_nonce(length=5)\<close>: \<open>None\<close> is the call without an argument;
  \<open>range(length)\<close> is empty for a negative length.
\<close>

definition generate_nonce ::
  "('r, 'j) env \<Rightarrow> int option \<Rightarrow> ('r, 'j) world \<Rightarrow> (error + pystr) \<times> ('r, 'j) world" where
  "generate_nonce env length_arg w =
     nonce_chars env (nat (case length_arg of None \<Rightarrow> 5 | Some n \<Rightarrow> n)) w"

definition build_oauth_params ::
  "('r, 'j) env \<Rightarrow> gallery \<Rightarrow> ('r, 'j) world \<Rightarrow> (error + params) \<times> ('r, 'j) world" where
  "build_oauth_params env self w =
     (case api_key self of
        Inl e \<Rightarrow> (Inl e, w)
      | Inr key \<Rightarrow>
          (case generate_nonce env (Some 5) w of
             (Inl e, w1) \<Rightarrow> (Inl e, w1)
           | (Inr nonce, w1) \<Rightarrow>
               (Inr [(ustr ''oauth_consumer_key'', PStr key),
                     (ustr ''oauth_nonce'', PStr nonce),
                     (ustr ''oauth_signature_method'', PStr (ustr ''HMAC-SHA1'')),
                     (ustr ''oauth_timestamp'', PStr (str_int \<lfloor>time_time env\<rfloor>)),
                     (ustr ''oauth_version'', PStr (ustr ''1.0''))], w1)))"

text \<open>
  \<open>generate_signature\<close>. The lambda \<open>quote\<close> of the source is \<open>quote (ustr ''~'')\<close>.
  The second component of the result is the \<open>params\<close> dict of the caller as the
  call leaves it: the source sorts a new list and never assigns to \<open>params\<close>.
\<close>

definition generate_signature ::
  "('r, 'j) env \<Rightarrow> gallery \<Rightarrow> pystr \<Rightarrow> pystr \<Rightarrow> params \<Rightarrow> (error + bytes) \<times> params" where
  "generate_signature env self http_method url params =
     (let sorted_params = sorted_items params in
      (case urlencode sorted_params of
         Inl e \<Rightarrow> Inl e
       | Inr normalized_params \<Rightarrow>
      (case quote (ustr ''~'') url of
         Inl e \<Rightarrow> Inl e
       | Inr quoted_url \<Rightarrow>
      (case quote (ustr ''~'') normalized_params of
         Inl e \<Rightarrow> Inl e
       | Inr quoted_params \<Rightarrow>
      (let base_string =
             join (ustr ''&'') [upper (unicode_upper env) http_method, quoted_url, quoted_params]
       in
      (case api_secret self of
         Inl e \<Rightarrow> Inl e
       | Inr secret \<Rightarrow>
      (case ascii_encode (join (ustr ''&'') [secret, []]) of
         Inl e \<Rightarrow> Inl e
       | Inr secret_bytes \<Rightarrow>
      (case ascii_encode base_string of
         Inl e \<Rightarrow> Inl e
       | Inr base_bytes \<Rightarrow> Inr (b64encode (hmac_sha1 secret_bytes base_bytes))))))))),
      params)"

section \<open>Endpoint operations\<close>

text \<open>
  Each operation reads \<open>api_location\<close>, builds the OAuth parameters, signs them, adds
  the signature with \<open>params.update\<close>, sends the request and decodes the answer. An
  exception leaves the operation at the place where it is raised. The result is the
  pair of the response object and the decoded body, with the state of the world.
\<close>

definition subscription ::
  "('r, 'j) env \<Rightarrow> gallery \<Rightarrow> ('r, 'j) world \<Rightarrow>
   (error + response \<times> 'j) \<times> ('r, 'j) world" where
  "subscription env self w =
     (let method = ustr ''GET'' in
      (case api_location self of
         Inl e \<Rightarrow> (Inl e, w)
       | Inr location \<Rightarrow>
      (let url = location @ ustr ''/v1/workflows/subscription/'' in
      (case build_oauth_params env self w of
         (Inl e, w1) \<Rightarrow> (Inl e, w1)
       | (Inr params, w1) \<Rightarrow>
      (case generate_signature env self method url params of
         (Inl e, params1) \<Rightarrow> (Inl e, w1)
       | (Inr signature, params1) \<Rightarrow>
      (let params2 = dict_update params1 (ustr ''oauth_signature'') (PBytes signature) in
      (case requests_get env url params2 w1 of
         (Inl e, w2) \<Rightarrow> (Inl e, w2)
       | (Inr output, w2) \<Rightarrow>
      (case utf8_decode (content output) of
         Inl e \<Rightarrow> (Inl e, w2)
       | Inr body \<Rightarrow>
      (case json_loads env body of
         Inl e \<Rightarrow> (Inl e, w2)
       | Inr output_content \<Rightarrow> (Inr (output, output_content), w2))))))))))"


definition execute_workflow ::
  "('r, 'j) env \<Rightarrow> gallery \<Rightarrow> pystr \<Rightarrow> (pystr \<rightharpoonup> 'j) \<Rightarrow> ('r, 'j) world \<Rightarrow>
   (error + response \<times> 'j) \<times> ('r, 'j) world" where
  "execute_workflow env self app_id kwargs w =
     (let method = ustr ''POST'' in
      (case api_location self of
         Inl e \<Rightarrow> (Inl e, w)
       | Inr location \<Rightarrow>
      (let url = location @ ustr ''/v1/workflows/'' @ app_id @ ustr ''/jobs/'' in
      (case build_oauth_params env self w of
         (Inl e, w1) \<Rightarrow> (Inl e, w1)
       | (Inr params, w1) \<Rightarrow>
      (case generate_signature env self method url params of
         (Inl e, params1) \<Rightarrow> (Inl e, w1)
       | (Inr signature, params1) \<Rightarrow>
      (let params2 = dict_update params1 (ustr ''oauth_signature'') (PBytes signature) in
      (case (case kwargs (ustr ''payload'') of
               Some payload \<Rightarrow>
                 requests_post env url (Some payload)
                   (Some [(ustr ''Content-Type'', ustr ''application/json'')]) params2 w1
             | None \<Rightarrow> requests_post env url None None params2 w1) of
         (Inl e, w2) \<Rightarrow> (Inl e, w2)
       | (Inr output, w2) \<Rightarrow>
      (case utf8_decode (content output) of
         Inl e \<Rightarrow> (Inl e, w2)
       | Inr body \<Rightarrow>
      (case json_loads env body of
         Inl e \<Rightarrow> (Inl e, w2)
       | Inr output_content \<Rightarrow> (Inr (output, output_content), w2))))))))))"






section \<open>Notions used by the statements\<close>

text \<open>A value the setters accept: a string that is not empty.\<close>

definition nonempty_str :: "pyval \<Rightarrow> bool" where
  "nonempty_str v = (case v of PyStr s \<Rightarrow> s \<noteq> [] | _ \<Rightarrow> False)"

text \<open>
  The indices \<open>_randbelow(bound)\<close> hands out in \<open>n\<close> successive calls from the state
  \<open>s\<close>, and the state of the generator after them.
\<close>

fun draws :: "('r, 'j) env \<Rightarrow> nat \<Rightarrow> nat \<Rightarrow> 'r \<Rightarrow> nat list" where
  "draws env bound 0 s = []"
| "draws env bound (Suc n) s =
     (case randbelow env bound s of (k, s') \<Rightarrow> k # draws env bound n s')"

fun rng_after :: "('r, 'j) env \<Rightarrow> nat \<Rightarrow> nat \<Rightarrow> 'r \<Rightarrow> 'r" where
  "rng_after env bound 0 s = s"
| "rng_after env bound (Suc n) s = rng_after env bound n (snd (randbelow env bound s))"

text \<open>The code points of \<open>[0-9]\<close>, \<open>[A-Z]\<close> and \<open>[a-z]\<close>.\<close>

definition alnum :: "nat set" where
  "alnum = {48..57} \<union> {65..90} \<union> {97..122}"

text \<open>
  An environment for the examples: a generator that counts, a fixed clock, a server
  that answers every request with the body \<open>{}\<close>, and a parser that accepts it.
\<close>

definition env0 :: "(nat, unit) env" where
  "env0 = \<lparr>unicode_upper = (\<lambda>c. [c]), randbelow = (\<lambda>n s. (s mod n, s + 7)),
           time_time = 1000000000,
           respond = (\<lambda>r. Inr \<lparr>status_code = 200, content = bstr ''{}''\<rparr>),
           json_loads = (\<lambda>s. Inr ())\<rparr>"

text \<open>
  Text that \<open>bytes(s, "ascii")\<close> accepts, and text that the UTF-8 codec accepts (no
  surrogate); parameters whose keys and text values the UTF-8 codec accepts.
\<close>

definition ascii :: "pystr \<Rightarrow> bool" where
  "ascii s = list_all (\<lambda>c. c < 128) s"

definition encodable :: "pystr \<Rightarrow> bool" where
  "encodable s = list_all (\<lambda>c. c < 0x110000 \<and> \<not> (0xD800 \<le> c \<and> c \<le> 0xDFFF)) s"

definition encodable_params :: "params \<Rightarrow> bool" where
  "encodable_params d =
     list_all (\<lambda>(k, v). encodable k \<and> (case v of PStr s \<Rightarrow> encodable s | PBytes b \<Rightarrow> True)) d"

text \<open>
  What the two encodings do with one octet of the UTF-8 form: \<open>url_rule\<close> is
  \<open>quote(x, safe="~")\<close>, \<open>param_rule\<close> is \<open>quote_plus(x, safe="")\<close>.
\<close>

definition url_rule :: "byte \<Rightarrow> pystr" where
  "url_rule b = (if b \<in> set always_safe then [unat b] else percent b)"

definition param_rule :: "byte \<Rightarrow> pystr" where
  "param_rule b = (if b = 0x20 then [43] else url_rule b)"

text \<open>An object for the examples, as the constructor builds it.\<close>

definition g0 :: gallery where
  "g0 = \<lparr>attr_api_location = Some (ustr ''https://example.com''), attr_api_key = Some (ustr ''k''),
         attr_api_secret = Some (ustr ''s'')\<rparr>"

subsection \<open>The scheme of an endpoint operation\<close>

text \<open>
  The specification describes every operation by one scheme: build fresh OAuth
  parameters, sign them for the method and the URL, attach the signature as
  \<open>oauth_signature\<close>, send the request, decode the answer as UTF-8. \<open>spec_call\<close> is that
  scheme, written from the specification, with the verb, the path and the payload
  as parameters; \<open>parse_json\<close> is the JSON step that follows it. The operations
  of the source are compared with it below.
\<close>

definition verb_name :: "verb \<Rightarrow> pystr" where
  "verb_name v = (case v of GET \<Rightarrow> ustr ''GET'' | POST \<Rightarrow> ustr ''POST'')"

definition json_header :: "(pystr \<times> pystr) list" where
  "json_header = [(ustr ''Content-Type'', ustr ''application/json'')]"

definition signed_request ::
  "verb \<Rightarrow> pystr \<Rightarrow> params \<Rightarrow> bytes \<Rightarrow> 'j option \<Rightarrow> 'j request" where
  "signed_request v url params sig payload =
     \<lparr>req_verb = v, req_url = url,
      req_params = params @ [(ustr ''oauth_signature'', PBytes sig)],
      req_json = payload,
      req_headers = (case payload of None \<Rightarrow> None | Some p \<Rightarrow> Some json_header)\<rparr>"

definition spec_call ::
  "('r, 'j) env \<Rightarrow> gallery \<Rightarrow> verb \<Rightarrow> pystr \<Rightarrow> 'j option \<Rightarrow> ('r, 'j) world \<Rightarrow>
   (error + response \<times> pystr) \<times> ('r, 'j) world" where
  "spec_call env self v path payload w =
     (case api_location self of
        Inl e \<Rightarrow> (Inl e, w)
      | Inr location \<Rightarrow>
          (case build_oauth_params env self w of
             (Inl e, w1) \<Rightarrow> (Inl e, w1)
           | (Inr params, w1) \<Rightarrow>
               (case fst (generate_signature env self (verb_name v) (location @ path) params) of
                  Inl e \<Rightarrow> (Inl e, w1)
                | Inr sig \<Rightarrow>
                    (let req = signed_request v (location @ path) params sig payload
                     in (case respond env req of
                           Inl e \<Rightarrow> Inl e
                         | Inr output \<Rightarrow>
                             (case utf8_decode (content output) of
                                Inl e \<Rightarrow> Inl e
                              | Inr body \<Rightarrow> Inr (output, body)),
                         w1\<lparr>sent := sent w1 @ [req]\<rparr>)))))"

definition parse_json ::
  "('r, 'j) env \<Rightarrow> (error + response \<times> pystr) \<times> ('r, 'j) world \<Rightarrow>
   (error + response \<times> 'j) \<times> ('r, 'j) world" where
  "parse_json env r =
     (case r of
        (Inl e, w) \<Rightarrow> (Inl e, w)
      | (Inr (output, body), w) \<Rightarrow>
          (case json_loads env body of
             Inl e \<Rightarrow> (Inl e, w)
           | Inr doc \<Rightarrow> (Inr (output, doc), w)))"





text \<open>A state of the world for the examples.\<close>

definition w0 :: "(nat, unit) world" where
  "w0 = \<lparr>rng = 3, sent = []\<rparr>"

section \<open>Verified properties\<close>

subsection \<open>Credentials\<close>

lemma setter_rejects:
  assumes "\<not> nonempty_str v"
  shows "\<exists>e. set_api_location self v = Inl e"
    and "\<exists>e. set_api_key self v = Inl e"
    and "\<exists>e. set_api_secret self v = Inl e"
  using assms
  by (cases v; simp add: nonempty_str_def set_api_location_def set_api_key_def set_api_secret_def)+

lemma setter_accepts:
  assumes "s \<noteq> []"
  shows "set_api_location self (PyStr s) = Inr (self\<lparr>attr_api_location := Some s\<rparr>)"
    and "set_api_key self (PyStr s) = Inr (self\<lparr>attr_api_key := Some s\<rparr>)"
    and "set_api_secret self (PyStr s) = Inr (self\<lparr>attr_api_secret := Some s\<rparr>)"
  using assms
  by (simp_all add: set_api_location_def set_api_key_def set_api_secret_def)

text \<open>
  C4. For every triple of non-empty strings the constructor succeeds and stores the
  three values unchanged. If one of the three arguments is an empty string or not a
  string, the constructor raises; so does every setter on such a value. Neither the
  constructor nor a setter takes the state of the world: they send no request.
\<close>

theorem Gallery_construction:
  "(loc \<noteq> [] \<and> key \<noteq> [] \<and> secret \<noteq> [] \<longrightarrow>
      Gallery (PyStr loc) (PyStr key) (PyStr secret) =
        Inr \<lparr>attr_api_location = Some loc, attr_api_key = Some key, attr_api_secret = Some secret\<rparr>)
   \<and> (\<not> nonempty_str a \<or> \<not> nonempty_str b \<or> \<not> nonempty_str c \<longrightarrow>
        (\<exists>e. Gallery a b c = Inl e))
   \<and> (\<not> nonempty_str v \<longrightarrow>
        (\<exists>e. set_api_location self v = Inl e) \<and> (\<exists>e. set_api_key self v = Inl e)
        \<and> (\<exists>e. set_api_secret self v = Inl e))"
proof (intro conjI impI)
  assume "loc \<noteq> [] \<and> key \<noteq> [] \<and> secret \<noteq> []"
  then show "Gallery (PyStr loc) (PyStr key) (PyStr secret) =
        Inr \<lparr>attr_api_location = Some loc, attr_api_key = Some key, attr_api_secret = Some secret\<rparr>"
    by (simp add: Gallery_def setter_accepts new_object_def)
next
  assume bad: "\<not> nonempty_str a \<or> \<not> nonempty_str b \<or> \<not> nonempty_str c"
  show "\<exists>e. Gallery a b c = Inl e"
  proof (cases "set_api_location new_object a")
    case (Inl e)
    then show ?thesis by (simp add: Gallery_def)
  next
    case loc_ok: (Inr s1)
    then have a_ok: "nonempty_str a" using setter_rejects(1) [of a new_object] by auto
    show ?thesis
    proof (cases "set_api_key s1 b")
      case (Inl e)
      with loc_ok show ?thesis by (simp add: Gallery_def)
    next
      case key_ok: (Inr s2)
      then have b_ok: "nonempty_str b" using setter_rejects(2) [of b s1] by auto
      from bad a_ok b_ok have "\<not> nonempty_str c" by simp
      then obtain e where "set_api_secret s2 c = Inl e" using setter_rejects(3) by blast
      with loc_ok key_ok show ?thesis by (simp add: Gallery_def)
    qed
  qed
next
  assume "\<not> nonempty_str v"
  then show "\<exists>e. set_api_location self v = Inl e" "\<exists>e. set_api_key self v = Inl e"
    "\<exists>e. set_api_secret self v = Inl e"
    by (rule setter_rejects)+
qed

theorem Gallery_construction_witness:
  "ustr ''https://alteryx.example.com/gallery/api'' \<noteq> [] \<and> ustr ''key'' \<noteq> [] \<and> ustr ''secret'' \<noteq> []
   \<and> Gallery (PyStr (ustr ''https://alteryx.example.com/gallery/api'')) (PyStr (ustr ''key''))
        (PyStr (ustr ''secret'')) =
      Inr \<lparr>attr_api_location = Some (ustr ''https://alteryx.example.com/gallery/api''),
           attr_api_key = Some (ustr ''key''), attr_api_secret = Some (ustr ''secret'')\<rparr>
   \<and> \<not> nonempty_str (PyStr [])
   \<and> (\<exists>e. Gallery (PyStr (ustr ''loc'')) (PyStr []) (PyStr (ustr ''secret'')) = Inl e)
   \<and> \<not> nonempty_str (PyInt 7)
   \<and> (\<exists>e. set_api_secret new_object (PyInt 7) = Inl e)"
  using Gallery_construction [of "ustr ''https://alteryx.example.com/gallery/api''" "ustr ''key''"
      "ustr ''secret''" "PyStr (ustr ''loc'')" "PyStr []" "PyStr (ustr ''secret'')" "PyInt 7" new_object]
  by (simp add: ustr_def nonempty_str_def)





subsection \<open>Order of the parameters\<close>




subsection \<open>The nonce\<close>

lemma tmp_string_eq:
  "tmp_string = [65..<91] @ [48..<58] @ [97..<123]"
  by (simp add: tmp_string_def ustr_def upt_rec_numeral)

lemma tmp_string_props: "length tmp_string = 62" "distinct tmp_string" "set tmp_string = alnum"
  unfolding tmp_string_eq alnum_def by (auto simp del: upt_rec_numeral)

lemma nonce_of_draws_inj:
  "inj_on (map ((!) tmp_string)) {ds. list_all (\<lambda>k. k < 62) ds}"
proof (rule inj_on_mapI)
  have "\<forall>i \<in> \<Union> (set ` {ds. list_all (\<lambda>k. k < 62) ds}). i < length tmp_string"
    by (auto simp: list_all_iff tmp_string_props(1))
  with tmp_string_props(2)
  show "inj_on ((!) tmp_string) (\<Union> (set ` {ds. list_all (\<lambda>k. k < 62) ds}))"
    by (rule inj_on_nth)
qed

lemma random_choice_ok:
  assumes "\<forall>n s. 0 < n \<longrightarrow> fst (randbelow env n s) < n"
  shows "random_choice env tmp_string w =
     (Inr (tmp_string ! fst (randbelow env 62 (rng w))), w\<lparr>rng := snd (randbelow env 62 (rng w))\<rparr>)"
proof -
  obtain k r where kr: "randbelow env 62 (rng w) = (k, r)" by (cases "randbelow env 62 (rng w)")
  have "fst (randbelow env 62 (rng w)) < 62" using assms by simp
  then have "k < 62" using kr by simp
  moreover have "tmp_string \<noteq> []" using tmp_string_props(1) by auto
  ultimately show ?thesis
    by (simp add: random_choice_def tmp_string_props(1) kr)
qed

lemma nonce_chars_ok:
  assumes "\<forall>n s. 0 < n \<longrightarrow> fst (randbelow env n s) < n"
  shows "nonce_chars env n w =
     (Inr (map ((!) tmp_string) (draws env 62 n (rng w))), w\<lparr>rng := rng_after env 62 n (rng w)\<rparr>)"
proof (induction n arbitrary: w)
  case 0
  then show ?case by simp
next
  case (Suc n)
  show ?case
    by (simp add: random_choice_ok [OF assms] Suc.IH split: prod.splits)
qed

lemma draws_bounded:
  assumes "\<forall>n s. 0 < n \<longrightarrow> fst (randbelow env n s) < n" and "0 < b"
  shows "length (draws env b n s) = n \<and> (\<forall>k \<in> set (draws env b n s). k < b)"
proof (induction n arbitrary: s)
  case 0
  then show ?case by simp
next
  case (Suc n)
  have "fst (randbelow env b s) < b" using assms by simp
  with Suc show ?case by (auto split: prod.splits)
qed

text \<open>
  C9. With a generator that keeps the contract of \<open>_randbelow\<close> (a result below its
  bound), \<open>generate_nonce(n)\<close> for \<open>n \<ge> 0\<close> returns a string of length \<open>n\<close> over
  \<open>[A-Za-z0-9]\<close>, from every state of the generator, and sends nothing. Position \<open>i\<close>
  holds the character of \<open>tmp_string\<close> at the \<open>i\<close>-th index drawn below 62, and
  \<open>tmp_string\<close> holds each of the 62 characters once: distinct sequences of draws
  give distinct nonces, so uniform draws give uniform characters. Without an
  argument the length is 5.
\<close>

theorem generate_nonce_alphanumeric:
  assumes "\<forall>n s. 0 < n \<longrightarrow> fst (randbelow env n s) < n" and "0 \<le> n"
  shows "\<exists>nonce w'. generate_nonce env (Some n) w = (Inr nonce, w')
           \<and> int (length nonce) = n \<and> set nonce \<subseteq> alnum
           \<and> nonce = map ((!) tmp_string) (draws env 62 (nat n) (rng w))
           \<and> list_all (\<lambda>k. k < 62) (draws env 62 (nat n) (rng w))
           \<and> set tmp_string = alnum \<and> distinct tmp_string \<and> length tmp_string = 62
           \<and> inj_on (map ((!) tmp_string)) {ds. list_all (\<lambda>k. k < 62) ds}
           \<and> sent w' = sent w
           \<and> generate_nonce env None w = generate_nonce env (Some 5) w"
proof -
  let ?ds = "draws env 62 (nat n) (rng w)"
  have d: "length ?ds = nat n" "\<forall>k \<in> set ?ds. k < 62"
    using draws_bounded [OF assms(1), of 62 "nat n" "rng w"] by simp_all
  have "set (map ((!) tmp_string) ?ds) \<subseteq> set tmp_string"
    using d(2) by (auto simp: tmp_string_props(1))
  then have "set (map ((!) tmp_string) ?ds) \<subseteq> alnum" by (simp add: tmp_string_props(3))
  moreover have "int (length (map ((!) tmp_string) ?ds)) = n" using d(1) assms(2) by simp
  moreover have "list_all (\<lambda>k. k < 62) ?ds" using d(2) by (simp add: list_all_iff)
  moreover have "generate_nonce env (Some n) w =
      (Inr (map ((!) tmp_string) ?ds), w\<lparr>rng := rng_after env 62 (nat n) (rng w)\<rparr>)"
    by (simp add: generate_nonce_def nonce_chars_ok [OF assms(1)])
  moreover have "generate_nonce env None w = generate_nonce env (Some 5) w"
    by (simp add: generate_nonce_def)
  ultimately show ?thesis using tmp_string_props nonce_of_draws_inj by simp
qed

theorem generate_nonce_alphanumeric_witness:
  "\<exists>nonce w'. generate_nonce env0 (Some 5) \<lparr>rng = 3, sent = []\<rparr> = (Inr nonce, w')
           \<and> int (length nonce) = 5 \<and> set nonce \<subseteq> alnum"
proof -
  have "\<forall>n s. 0 < n \<longrightarrow> fst (randbelow env0 n s) < n" by (simp add: env0_def)
  from generate_nonce_alphanumeric [OF this, of 5 "\<lparr>rng = 3, sent = []\<rparr>"]
  show ?thesis by auto
qed

subsection \<open>Percent-encoding\<close>

lemmas encoding_defs =
  quote_via_def quote_plus_def quote_plus_bytes_def quote_def ustr_def bstr_def utf8_char_def
  quote_from_bytes_def always_safe_def ascii_ignore_def space_to_plus_def percent_def hex_digit_def

lemma always_safe_range: "b \<in> set always_safe \<Longrightarrow> 45 \<le> unat b \<and> unat b < 128"
  by (auto simp: always_safe_def bstr_def)

lemma percent_range: "c \<in> set (percent b) \<Longrightarrow> 37 \<le> c \<and> c < 128"
proof -
  have "unat b div 16 < 16" using unsigned_less [of b, where ?'a = nat] by simp
  moreover have "unat b mod 16 < 16" by simp
  ultimately show "c \<in> set (percent b) \<Longrightarrow> 37 \<le> c \<and> c < 128"
    by (auto simp: percent_def hex_digit_def)
qed

lemma url_rule_range: "c \<in> set (url_rule b) \<Longrightarrow> 37 \<le> c \<and> c < 128"
  using always_safe_range [of b] percent_range [of c b]
  by (auto simp: url_rule_def split: if_splits)

lemma utf8_encode_error: "utf8_encode s = Inl e \<Longrightarrow> e = UnicodeEncodeError"
  by (induction s) (auto simp: utf8_char_def split: sum.splits if_splits)

lemma utf8_encode_append:
  "utf8_encode (s @ t) =
     (case utf8_encode s of Inl e \<Rightarrow> Inl e
      | Inr a \<Rightarrow> (case utf8_encode t of Inl e \<Rightarrow> Inl e | Inr b \<Rightarrow> Inr (a @ b)))"
  by (induction s) (auto split: sum.splits)

lemma utf8_encode_ok: "encodable s \<Longrightarrow> \<exists>bs. utf8_encode s = Inr bs"
  by (induction s) (auto simp: encodable_def utf8_char_def split: sum.splits)

lemma quote_tilde_rule:
  "quote (ustr ''~'') s =
     (case utf8_encode s of Inl e \<Rightarrow> Inl e | Inr bs \<Rightarrow> Inr (concat (map url_rule bs)))"
proof -
  have "set (always_safe @ ascii_ignore (ustr ''~'')) = set always_safe"
    by (auto simp: always_safe_def bstr_def ascii_ignore_def ustr_def)
  then show ?thesis
    by (simp add: quote_def quote_from_bytes_def url_rule_def [abs_def] split: sum.splits)
qed

lemma byte_of_nat: "n < 256 \<Longrightarrow> unat (of_nat n :: byte) = n"
  by (simp add: unat_of_nat)

lemma utf8_char_low: "c < 128 \<Longrightarrow> utf8_char c = Inr [of_nat c]"
  by (simp add: utf8_char_def)

lemma utf8_char_high:
  assumes "128 \<le> c" and "utf8_char c = Inr cs"
  shows "list_all (\<lambda>b. 128 \<le> unat b) cs"
proof -
  have hi: "\<And>n. 128 \<le> n \<Longrightarrow> n < 256 \<Longrightarrow> 128 \<le> unat (of_nat n :: byte)"
    by (simp add: byte_of_nat)
  from assms show ?thesis
    unfolding utf8_char_def
    by (auto simp del: of_nat_add of_nat_mult of_nat_numeral split: if_splits intro!: hi)
qed

lemma utf8_char_no_space:
  assumes "c \<noteq> 32" and "utf8_char c = Inr cs"
  shows "0x20 \<notin> set cs"
proof (cases "c < 128")
  case True
  then have "unat (of_nat c :: byte) = c" by (simp add: byte_of_nat)
  with assms(1) have "(of_nat c :: byte) \<noteq> 0x20" by auto
  with True assms(2) show ?thesis by (auto simp: utf8_char_low)
next
  case False
  then have "list_all (\<lambda>b. 128 \<le> unat b) cs" using assms(2) utf8_char_high [of c cs] by simp
  then show ?thesis by (auto simp: list_all_iff)
qed

lemma utf8_no_space: "32 \<notin> set s \<Longrightarrow> utf8_encode s = Inr bs \<Longrightarrow> 0x20 \<notin> set bs"
proof (induction s arbitrary: bs)
  case Nil
  then show ?case by simp
next
  case (Cons c s)
  then show ?case
    by (auto split: sum.splits dest: utf8_char_no_space)
qed

lemma space_to_plus_url_rule:
  "space_to_plus (if b = 0x20 \<or> b \<in> set always_safe then [unat b] else percent b) = param_rule b"
proof (cases "b = 0x20")
  case True
  then show ?thesis by (simp add: param_rule_def space_to_plus_def)
next
  case False
  have "32 \<notin> set (url_rule b)" using url_rule_range [of 32 b] by auto
  then have "space_to_plus (url_rule b) = url_rule b"
    unfolding space_to_plus_def by (intro map_idI) auto
  with False show ?thesis by (simp add: param_rule_def url_rule_def)
qed

lemma space_to_plus_concat: "space_to_plus (concat xs) = concat (map space_to_plus xs)"
  by (induction xs) (simp_all add: space_to_plus_def)

lemma no_space_rules:
  assumes "0x20 \<notin> set bs"
  shows "concat (map (\<lambda>b. if b \<in> set always_safe then [unat b] else percent b) bs) =
         concat (map param_rule bs)"
proof -
  have "map (\<lambda>b. if b \<in> set always_safe then [unat b] else percent b) bs = map param_rule bs"
    by (rule map_cong) (use assms in \<open>auto simp: param_rule_def url_rule_def\<close>)
  then show ?thesis by (rule arg_cong)
qed

lemma with_space_rules:
  "space_to_plus (concat (map (\<lambda>b. if b \<in> set (always_safe @ ascii_ignore [32]) then [unat b]
       else percent b) bs)) = concat (map param_rule bs)"
proof -
  have "ascii_ignore [32] = [0x20]" by (simp add: ascii_ignore_def)
  then show ?thesis
    by (simp add: space_to_plus_concat comp_def space_to_plus_url_rule)
qed

lemma quote_plus_rule:
  "quote_plus [] s =
     (case utf8_encode s of Inl e \<Rightarrow> Inl e | Inr bs \<Rightarrow> Inr (concat (map param_rule bs)))"
proof (cases "utf8_encode s")
  case (Inl e)
  then show ?thesis by (simp add: quote_plus_def quote_def)
next
  case (Inr bs)
  show ?thesis
  proof (cases "32 \<in> set s")
    case True
    with Inr show ?thesis
      using with_space_rules [of bs]
      by (simp add: quote_plus_def quote_def quote_from_bytes_def)
  next
    case False
    with Inr have "0x20 \<notin> set bs" using utf8_no_space [of s bs] by simp
    with False Inr show ?thesis
      using no_space_rules [of bs]
      by (simp add: quote_plus_def quote_def quote_from_bytes_def ascii_ignore_def)
  qed
qed

lemma quote_plus_bytes_rule: "quote_plus_bytes [] bs = concat (map param_rule bs)"
proof (cases "0x20 \<in> set bs")
  case True
  then show ?thesis
    using with_space_rules [of bs]
    by (simp add: quote_plus_bytes_def quote_from_bytes_def)
next
  case False
  then show ?thesis
    using no_space_rules [of bs]
    by (simp add: quote_plus_bytes_def quote_from_bytes_def ascii_ignore_def)
qed

lemma param_rule_range: "c \<in> set (param_rule b) \<Longrightarrow> 37 \<le> c \<and> c < 128"
  using url_rule_range [of c b] by (auto simp: param_rule_def split: if_splits)

lemma ascii_append [simp]: "ascii (s @ t) = (ascii s \<and> ascii t)"
  by (simp add: ascii_def)

lemma ascii_concat_rules:
  "ascii (concat (map url_rule bs))" "ascii (concat (map param_rule bs))"
  using url_rule_range param_rule_range by (auto simp: ascii_def list_all_iff)

lemma ascii_encodable: "ascii s \<Longrightarrow> encodable s"
  by (auto simp: ascii_def encodable_def list_all_iff)

lemma quote_ok: "encodable s \<Longrightarrow> \<exists>q. quote (ustr ''~'') s = Inr q \<and> ascii q"
proof -
  assume "encodable s"
  then obtain bs where "utf8_encode s = Inr bs" using utf8_encode_ok [of s] by auto
  then show ?thesis by (simp add: quote_tilde_rule ascii_concat_rules)
qed

lemma quote_via_ok:
  "(case v of PStr s \<Rightarrow> encodable s | PBytes b \<Rightarrow> True) \<Longrightarrow> \<exists>q. quote_via v = Inr q \<and> ascii q"
proof (cases v)
  case (PStr s)
  assume "case v of PStr s \<Rightarrow> encodable s | PBytes b \<Rightarrow> True"
  with PStr obtain bs where "utf8_encode s = Inr bs" using utf8_encode_ok [of s] by auto
  with PStr show ?thesis by (simp add: quote_via_def quote_plus_rule ascii_concat_rules)
next
  case (PBytes b)
  then show ?thesis by (simp add: quote_via_def quote_plus_bytes_rule ascii_concat_rules)
qed

lemma ascii_join: "ascii sep \<Longrightarrow> list_all ascii l \<Longrightarrow> ascii (join sep l)"
  by (induction sep l rule: join.induct) (simp_all add: ascii_def)

lemma ascii_ustr [simp]: "ascii (ustr ''='')" "ascii (ustr ''&'')"
  by (simp_all add: ascii_def ustr_def)

lemma urlencode_items_ok:
  "encodable_params d \<Longrightarrow> \<exists>l. urlencode_items d = Inr l \<and> list_all ascii l"
proof (induction d)
  case Nil
  then show ?case by simp
next
  case (Cons kv d)
  obtain k v where kv: "kv = (k, v)" by (cases kv)
  from Cons.prems kv have k: "encodable k"
    and v: "case v of PStr s \<Rightarrow> encodable s | PBytes b \<Rightarrow> True"
    and d: "encodable_params d"
    by (simp_all add: encodable_params_def)
  from quote_via_ok [of "PStr k"] k obtain qk where qk: "quote_via (PStr k) = Inr qk" "ascii qk"
    by auto
  from quote_via_ok [OF v] obtain qv where qv: "quote_via v = Inr qv" "ascii qv" by auto
  from Cons.IH [OF d] obtain l where l: "urlencode_items d = Inr l" "list_all ascii l" by auto
  show ?case using kv qk qv l by simp
qed

lemma urlencode_ok: "encodable_params d \<Longrightarrow> \<exists>q. urlencode d = Inr q \<and> ascii q"
  using urlencode_items_ok [of d] by (auto simp: urlencode_def ascii_join)

lemma encodable_params_sorted: "encodable_params d \<Longrightarrow> encodable_params (sorted_items d)"
  by (simp add: encodable_params_def sorted_items_def list_all_iff)

lemma ascii_upper: "ascii m \<Longrightarrow> ascii (upper tab m)"
  by (induction m) (auto simp: ascii_def upper_def)

lemma ascii_encode_ok: "ascii s \<Longrightarrow> ascii_encode s = Inr (map of_nat s)"
  by (simp add: ascii_def ascii_encode_def)

lemma ascii_encode_fails: "\<not> ascii s \<Longrightarrow> ascii_encode s = Inl UnicodeEncodeError"
  by (simp add: ascii_def ascii_encode_def)

lemma quote_error: "quote safe s = Inl e \<Longrightarrow> e = UnicodeEncodeError"
  by (auto simp: quote_def split: sum.splits dest: utf8_encode_error)

lemma quote_via_error: "quote_via v = Inl e \<Longrightarrow> e = UnicodeEncodeError"
  by (cases v) (auto simp: quote_via_def quote_plus_def split: sum.splits if_splits dest: quote_error)

lemma urlencode_error: "urlencode d = Inl e \<Longrightarrow> e = UnicodeEncodeError"
proof -
  have "urlencode_items d = Inl e \<Longrightarrow> e = UnicodeEncodeError"
    by (induction d rule: urlencode_items.induct)
       (auto split: sum.splits dest: quote_via_error)
  then show "urlencode d = Inl e \<Longrightarrow> e = UnicodeEncodeError"
    by (auto simp: urlencode_def split: sum.splits)
qed

lemma join2: "join sep [a, b] = a @ sep @ b" "join sep [a, b, c] = a @ sep @ b @ sep @ c"
  by simp_all

lemma generate_signature_non_ascii_secret:
  assumes "attr_api_secret self = Some secret" and "\<not> ascii secret"
  shows "fst (generate_signature env self m u ps) = Inl UnicodeEncodeError"
proof -
  have "api_secret self = Inr secret" using assms(1) by (simp add: api_secret_def)
  moreover have "ascii_encode (join (ustr ''&'') [secret, []]) = Inl UnicodeEncodeError"
    using assms(2) by (simp add: ascii_encode_fails)
  ultimately show ?thesis
    by (auto simp: generate_signature_def Let_def split: sum.splits
        dest: urlencode_error quote_error)
qed

lemma generate_signature_returns:
  assumes "attr_api_secret self = Some secret" and "ascii secret" and "ascii m"
    and "encodable u" and "encodable_params ps"
  shows "\<exists>np qu qp. urlencode (sorted_items ps) = Inr np \<and> quote (ustr ''~'') u = Inr qu
           \<and> quote (ustr ''~'') np = Inr qp
           \<and> fst (generate_signature env self m u ps) =
               Inr (b64encode (hmac_sha1 (map of_nat (secret @ ustr ''&''))
                 (map of_nat (upper (unicode_upper env) m @ ustr ''&'' @ qu @ ustr ''&'' @ qp))))"
proof -
  have s: "api_secret self = Inr secret" using assms(1) by (simp add: api_secret_def)
  from urlencode_ok [OF encodable_params_sorted [OF assms(5)]]
  obtain np where np: "urlencode (sorted_items ps) = Inr np" "ascii np" by auto
  from quote_ok [OF assms(4)] obtain qu where qu: "quote (ustr ''~'') u = Inr qu" "ascii qu" by auto
  from quote_ok [OF ascii_encodable [OF np(2)]]
  obtain qp where qp: "quote (ustr ''~'') np = Inr qp" "ascii qp" by auto
  have k: "ascii_encode (join (ustr ''&'') [secret, []]) = Inr (map of_nat (secret @ ustr ''&''))"
    using assms(2) by (simp add: ascii_encode_ok)
  have b: "ascii_encode (join (ustr ''&'') [upper (unicode_upper env) m, qu, qp]) =
      Inr (map of_nat (upper (unicode_upper env) m @ ustr ''&'' @ qu @ ustr ''&'' @ qp))"
    using assms(3) qu(2) qp(2) by (simp add: ascii_encode_ok ascii_upper)
  show ?thesis using s np(1) qu(1) qp(1) k b
    by (simp add: generate_signature_def)
qed

lemmas signature_defs =
  generate_signature_def sorted_items_def urlencode_def upper_def api_secret_def ascii_encode_def
  env0_def g0_def

lemma quote_via_no_space: "32 \<notin> set s \<Longrightarrow> quote_via (PStr s) = quote (ustr ''~'') s"
proof (cases "utf8_encode s")
  case (Inl e)
  then show ?thesis by (simp add: quote_via_def quote_plus_rule quote_tilde_rule)
next
  case (Inr bs)
  assume "32 \<notin> set s"
  with Inr have "0x20 \<notin> set bs" using utf8_no_space [of s bs] by simp
  then have "concat (map param_rule bs) = concat (map url_rule bs)"
    using no_space_rules [of bs] by (simp add: url_rule_def [abs_def])
  with Inr show ?thesis by (simp add: quote_via_def quote_plus_rule quote_tilde_rule)
qed

lemma quote_via_append:
  "quote_via (PStr (s @ t)) =
     (case quote_via (PStr s) of Inl e \<Rightarrow> Inl e
      | Inr a \<Rightarrow> (case quote_via (PStr t) of Inl e \<Rightarrow> Inl e | Inr b \<Rightarrow> Inr (a @ b)))"
  by (simp add: quote_via_def quote_plus_rule utf8_encode_append split: sum.splits)

lemma quote_append:
  "quote (ustr ''~'') (s @ t) =
     (case quote (ustr ''~'') s of Inl e \<Rightarrow> Inl e
      | Inr a \<Rightarrow> (case quote (ustr ''~'') t of Inl e \<Rightarrow> Inl e | Inr b \<Rightarrow> Inr (a @ b)))"
  by (simp add: quote_tilde_rule utf8_encode_append split: sum.splits)

lemma urlencode_items_shape:
  "urlencode_items d = Inr l \<Longrightarrow>
   list_all2 (\<lambda>(k, v) item. \<exists>qk qv. quote_via (PStr k) = Inr qk \<and> quote_via v = Inr qv
                \<and> item = qk @ ustr ''='' @ qv) d l"
  by (induction d arbitrary: l rule: urlencode_items.induct) (auto split: sum.splits)

lemma generate_signature_shape:
  assumes "fst (generate_signature env self m u ps) = Inr sig"
  shows "\<exists>np qu qp secret. urlencode (sorted_items ps) = Inr np \<and> quote (ustr ''~'') u = Inr qu
           \<and> quote (ustr ''~'') np = Inr qp \<and> attr_api_secret self = Some secret
           \<and> sig = b64encode (hmac_sha1 (map of_nat (secret @ ustr ''&''))
                 (map of_nat (upper (unicode_upper env) m @ ustr ''&'' @ qu @ ustr ''&'' @ qp)))"
  using assms
  by (auto simp: generate_signature_def Let_def api_secret_def ascii_encode_def
      split: sum.splits option.splits if_splits)

text \<open>
  C2 as stated fails at the space: \<open>urlencode\<close> quotes keys and values with
  \<open>quote_plus\<close>, which writes a space as \<open>+\<close>, while the URL goes through
  \<open>quote(x, safe="~")\<close>, which writes it as \<open>%20\<close>.
\<close>

theorem space_encoding_counterexample:
  "quote_via (PStr (ustr '' '')) \<noteq> quote (ustr ''~'') (ustr '' '')"
  by (simp add: encoding_defs)

text \<open>
  C2, amended. On every string without a space the encoding of a parameter key or
  value is the encoding of the URL; a space becomes \<open>+\<close> in a key or value and
  \<open>%20\<close> in the URL; \<open>~\<close> stays as it is in both. Both encodings work character by
  character (they distribute over concatenation). The query string is the items
  \<open>key=value\<close>, encoded so, joined with \<open>&\<close>. A signature that
  \<open>generate_signature\<close> returns is made from the URL and from that query string of
  the sorted items, each passed through \<open>quote(x, safe="~")\<close>.
\<close>

theorem parameter_and_url_encoding:
  "(32 \<notin> set s \<longrightarrow> quote_via (PStr s) = quote (ustr ''~'') s)
   \<and> quote_via (PStr (ustr '' '')) = Inr (ustr ''+'')
   \<and> quote (ustr ''~'') (ustr '' '') = Inr (ustr ''%20'')
   \<and> quote_via (PStr (ustr ''~'')) = Inr (ustr ''~'')
   \<and> quote (ustr ''~'') (ustr ''~'') = Inr (ustr ''~'')
   \<and> quote_via (PStr (s @ t)) =
       (case quote_via (PStr s) of Inl e \<Rightarrow> Inl e
        | Inr a \<Rightarrow> (case quote_via (PStr t) of Inl e \<Rightarrow> Inl e | Inr b \<Rightarrow> Inr (a @ b)))
   \<and> quote (ustr ''~'') (s @ t) =
       (case quote (ustr ''~'') s of Inl e \<Rightarrow> Inl e
        | Inr a \<Rightarrow> (case quote (ustr ''~'') t of Inl e \<Rightarrow> Inl e | Inr b \<Rightarrow> Inr (a @ b)))
   \<and> (urlencode d = Inr q \<longrightarrow>
        (\<exists>l. list_all2 (\<lambda>(k, v) item. \<exists>qk qv. quote_via (PStr k) = Inr qk \<and> quote_via v = Inr qv
                \<and> item = qk @ ustr ''='' @ qv) d l \<and> q = join (ustr ''&'') l))
   \<and> (fst (generate_signature env self m u ps) = Inr sig \<longrightarrow>
        (\<exists>np qu qp secret. urlencode (sorted_items ps) = Inr np \<and> quote (ustr ''~'') u = Inr qu
           \<and> quote (ustr ''~'') np = Inr qp \<and> attr_api_secret self = Some secret
           \<and> sig = b64encode (hmac_sha1 (map of_nat (secret @ ustr ''&''))
                 (map of_nat (upper (unicode_upper env) m @ ustr ''&'' @ qu @ ustr ''&'' @ qp)))))"
proof -
  have a: "32 \<notin> set s \<longrightarrow> quote_via (PStr s) = quote (ustr ''~'') s"
    by (simp add: quote_via_no_space)
  have b: "quote_via (PStr (ustr '' '')) = Inr (ustr ''+'')"
    "quote (ustr ''~'') (ustr '' '') = Inr (ustr ''%20'')"
    "quote_via (PStr (ustr ''~'')) = Inr (ustr ''~'')"
    "quote (ustr ''~'') (ustr ''~'') = Inr (ustr ''~'')"
    by (simp_all add: encoding_defs)
  have c: "urlencode d = Inr q \<longrightarrow>
        (\<exists>l. list_all2 (\<lambda>(k, v) item. \<exists>qk qv. quote_via (PStr k) = Inr qk \<and> quote_via v = Inr qv
                \<and> item = qk @ ustr ''='' @ qv) d l \<and> q = join (ustr ''&'') l)"
    using urlencode_items_shape [of d] by (auto simp: urlencode_def split: sum.splits)
  show ?thesis
    using a b c quote_via_append [of s t] quote_append [of s t]
      generate_signature_shape [of env self m u ps sig]
    by blast
qed

theorem parameter_and_url_encoding_witness:
  "32 \<notin> set (ustr ''a~/'')
   \<and> quote_via (PStr (ustr ''a~/'')) = quote (ustr ''~'') (ustr ''a~/'')
   \<and> urlencode [(ustr ''a b'', PStr (ustr ''c/d''))] = Inr (ustr ''a+b=c%2Fd'')
   \<and> (\<exists>l. list_all2 (\<lambda>(k, v) item. \<exists>qk qv. quote_via (PStr k) = Inr qk \<and> quote_via v = Inr qv
                \<and> item = qk @ ustr ''='' @ qv) [(ustr ''a b'', PStr (ustr ''c/d''))] l
          \<and> ustr ''a+b=c%2Fd'' = join (ustr ''&'') l)
   \<and> fst (generate_signature env0 g0 (ustr ''get'') (ustr ''https://h/x y'')
          [(ustr ''a b'', PStr (ustr ''c/d''))]) =
       Inr (b64encode (hmac_sha1 (bstr ''s&'') (bstr ''GET&https%3A%2F%2Fh%2Fx%20y&a%2Bb%3Dc%252Fd'')))
   \<and> (\<exists>np qu qp secret. urlencode (sorted_items [(ustr ''a b'', PStr (ustr ''c/d''))]) = Inr np
         \<and> quote (ustr ''~'') (ustr ''https://h/x y'') = Inr qu
         \<and> quote (ustr ''~'') np = Inr qp \<and> attr_api_secret g0 = Some secret
         \<and> b64encode (hmac_sha1 (bstr ''s&'') (bstr ''GET&https%3A%2F%2Fh%2Fx%20y&a%2Bb%3Dc%252Fd'')) =
            b64encode (hmac_sha1 (map of_nat (secret @ ustr ''&''))
              (map of_nat (upper (unicode_upper env0) (ustr ''get'') @ ustr ''&'' @ qu @ ustr ''&'' @ qp))))"
proof -
  have n: "32 \<notin> set (ustr ''a~/'')" by (simp add: ustr_def)
  have u: "urlencode [(ustr ''a b'', PStr (ustr ''c/d''))] = Inr (ustr ''a+b=c%2Fd'')"
    by (simp add: urlencode_def encoding_defs)
  have g: "fst (generate_signature env0 g0 (ustr ''get'') (ustr ''https://h/x y'')
          [(ustr ''a b'', PStr (ustr ''c/d''))]) =
       Inr (b64encode (hmac_sha1 (bstr ''s&'') (bstr ''GET&https%3A%2F%2Fh%2Fx%20y&a%2Bb%3Dc%252Fd'')))"
    by (simp add: signature_defs encoding_defs)
  show ?thesis
    using n u g parameter_and_url_encoding [of "ustr ''a~/''" "[]" "[(ustr ''a b'', PStr (ustr ''c/d''))]"
        "ustr ''a+b=c%2Fd''" env0 g0 "ustr ''get''" "ustr ''https://h/x y''"
        "[(ustr ''a b'', PStr (ustr ''c/d''))]"
        "b64encode (hmac_sha1 (bstr ''s&'') (bstr ''GET&https%3A%2F%2Fh%2Fx%20y&a%2Bb%3Dc%252Fd''))"]
    by blast
qed

subsection \<open>Characters outside ASCII\<close>

text \<open>
  C5 as stated fails for parameter values: a value outside ASCII is percent-encoded
  from its UTF-8 octets before the base string is encoded as ASCII, and the
  signature is returned.
\<close>

theorem non_ascii_parameter_counterexample:
  "\<not> ascii [233]
   \<and> fst (generate_signature env0 g0 (ustr ''GET'') (ustr ''https://h/'') [(ustr ''q'', PStr [233])]) =
       Inr (b64encode (hmac_sha1 (bstr ''s&'') (bstr ''GET&https%3A%2F%2Fh%2F&q%3D%25C3%25A9'')))"
  by (simp add: signature_defs encoding_defs ascii_def)

text \<open>
  C5, amended. An \<open>api_secret\<close> with a character outside ASCII makes
  \<open>generate_signature\<close> raise \<open>UnicodeEncodeError\<close>, and no signature is returned.
  With a secret and a method in ASCII, and a URL and parameters free of surrogates
  (in ASCII or not), \<open>generate_signature\<close> returns a signature. Text in ASCII is
  free of surrogates, and \<open>bytes(s, "ascii")\<close> succeeds on it.
\<close>

theorem generate_signature_ascii:
  "(attr_api_secret self = Some secret \<and> \<not> ascii secret \<longrightarrow>
      fst (generate_signature env self m u ps) = Inl UnicodeEncodeError)
   \<and> (attr_api_secret self = Some secret \<and> ascii secret \<and> ascii m \<and> encodable u
        \<and> encodable_params ps \<longrightarrow>
      (\<exists>sig. fst (generate_signature env self m u ps) = Inr sig))
   \<and> (ascii s \<longrightarrow> encodable s \<and> ascii_encode s = Inr (map of_nat s))"
  using generate_signature_non_ascii_secret [of self secret env m u ps]
    generate_signature_returns [of self secret m u ps env]
    ascii_encodable [of s] ascii_encode_ok [of s]
  by blast

theorem generate_signature_ascii_witness:
  "attr_api_secret (g0\<lparr>attr_api_secret := Some [233]\<rparr>) = Some [233] \<and> \<not> ascii [233]
   \<and> fst (generate_signature env0 (g0\<lparr>attr_api_secret := Some [233]\<rparr>) (ustr ''GET'')
          (ustr ''https://h/'') [(ustr ''q'', PStr [233])]) = Inl UnicodeEncodeError
   \<and> attr_api_secret g0 = Some (ustr ''s'') \<and> ascii (ustr ''s'') \<and> ascii (ustr ''GET'')
   \<and> encodable (ustr ''https://h/'') \<and> encodable_params [(ustr ''q'', PStr [233])]
   \<and> (\<exists>sig. fst (generate_signature env0 g0 (ustr ''GET'') (ustr ''https://h/'')
                [(ustr ''q'', PStr [233])]) = Inr sig)
   \<and> ascii_encode (ustr ''s&'') = Inr (map of_nat (ustr ''s&''))"
proof -
  have h: "attr_api_secret (g0\<lparr>attr_api_secret := Some [233]\<rparr>) = Some [233]" "\<not> ascii [233]"
    "attr_api_secret g0 = Some (ustr ''s'')" "ascii (ustr ''s'')" "ascii (ustr ''GET'')"
    "encodable (ustr ''https://h/'')" "encodable_params [(ustr ''q'', PStr [233])]"
    "ascii (ustr ''s&'')"
    by (simp_all add: g0_def ascii_def encodable_def encodable_params_def ustr_def)
  show ?thesis
    using h generate_signature_ascii [of "g0\<lparr>attr_api_secret := Some [233]\<rparr>" "[233]" env0
        "ustr ''GET''" "ustr ''https://h/''" "[(ustr ''q'', PStr [233])]" "ustr ''s&''"]
      generate_signature_ascii [of g0 "ustr ''s''" env0
        "ustr ''GET''" "ustr ''https://h/''" "[(ustr ''q'', PStr [233])]" "ustr ''s&''"]
    by blast
qed

subsection \<open>Endpoint operations\<close>

lemma generate_signature_params [simp]: "snd (generate_signature env self m u ps) = ps"
  by (simp add: generate_signature_def)

lemma build_oauth_params_keys:
  assumes "build_oauth_params env self w = (Inr params, w1)"
  shows "map fst params = [ustr ''oauth_consumer_key'', ustr ''oauth_nonce'',
           ustr ''oauth_signature_method'', ustr ''oauth_timestamp'', ustr ''oauth_version'']"
  using assms by (auto simp: build_oauth_params_def split: sum.splits prod.splits)

lemma dict_update_fresh: "k \<notin> set (map fst d) \<Longrightarrow> dict_update d k v = d @ [(k, v)]"
  by (induction d) auto

lemma build_oauth_params_update:
  assumes "build_oauth_params env self w = (Inr params, w1)"
  shows "dict_update params (ustr ''oauth_signature'') v = params @ [(ustr ''oauth_signature'', v)]"
proof -
  have "ustr ''oauth_signature'' \<notin> set (map fst params)"
    unfolding build_oauth_params_keys [OF assms] by (simp add: ustr_def)
  then show ?thesis by (rule dict_update_fresh)
qed

lemma generate_nonce_sent: "generate_nonce env n w = (r, w1) \<Longrightarrow> sent w1 = sent w"
proof -
  have "nonce_chars env k w = (r, w1) \<Longrightarrow> sent w1 = sent w" for k
  proof (induction k arbitrary: w r w1)
    case 0
    then show ?case by auto
  next
    case (Suc k)
    then show ?case
      by (fastforce simp: random_choice_def split: prod.splits sum.splits if_splits)
  qed
  then show "generate_nonce env n w = (r, w1) \<Longrightarrow> sent w1 = sent w"
    by (simp add: generate_nonce_def)
qed

lemma build_oauth_params_sent: "build_oauth_params env self w = (r, w1) \<Longrightarrow> sent w1 = sent w"
  by (auto simp: build_oauth_params_def split: sum.splits prod.splits dest: generate_nonce_sent)



lemma post_case:
  assumes "build_oauth_params env self w = (Inr params, w1)"
    and "generate_signature env self m url params = (Inr sig, ps)"
  shows "requests_post env url None None (dict_update ps (ustr ''oauth_signature'') (PBytes sig)) w1 =
     (respond env (signed_request POST url params sig None),
      w1\<lparr>sent := sent w1 @ [signed_request POST url params sig None]\<rparr>)"
    and "requests_post env url (Some p) (Some [(ustr ''Content-Type'', ustr ''application/json'')])
       (dict_update ps (ustr ''oauth_signature'') (PBytes sig)) w1 =
     (respond env (signed_request POST url params sig (Some p)),
      w1\<lparr>sent := sent w1 @ [signed_request POST url params sig (Some p)]\<rparr>)"
proof -
  have "ps = params" using assms(2) generate_signature_params [of env self m url params] by simp
  then show "requests_post env url None None (dict_update ps (ustr ''oauth_signature'') (PBytes sig)) w1 =
     (respond env (signed_request POST url params sig None),
      w1\<lparr>sent := sent w1 @ [signed_request POST url params sig None]\<rparr>)"
    and "requests_post env url (Some p) (Some [(ustr ''Content-Type'', ustr ''application/json'')])
       (dict_update ps (ustr ''oauth_signature'') (PBytes sig)) w1 =
     (respond env (signed_request POST url params sig (Some p)),
      w1\<lparr>sent := sent w1 @ [signed_request POST url params sig (Some p)]\<rparr>)"
    by (simp_all add: requests_post_def signed_request_def json_header_def Let_def
        build_oauth_params_update [OF assms(1)])
qed

lemma execute_workflow_spec:
  "execute_workflow env self app_id kwargs w =
     parse_json env (spec_call env self POST (ustr ''/v1/workflows/'' @ app_id @ ustr ''/jobs/'')
       (kwargs (ustr ''payload'')) w)"
  by (auto simp: execute_workflow_def spec_call_def parse_json_def verb_name_def Let_def post_case
      split: sum.splits prod.splits option.splits)









lemma parse_json_world [simp]: "snd (parse_json env r) = snd r"
  by (auto simp: parse_json_def split: sum.splits prod.splits)



lemma spec_call_sends:
  assumes "api_location self = Inr location"
    and "build_oauth_params env self w = (Inr params, w1)"
    and "fst (generate_signature env self (verb_name v) (location @ path) params) = Inr sig"
  shows "sent (snd (spec_call env self v path payload w)) =
           sent w @ [signed_request v (location @ path) params sig payload]"
  using assms build_oauth_params_sent [OF assms(2)]
  by (simp add: spec_call_def Let_def)

lemma example_nonce:
  "generate_nonce env0 (Some 5) w0 = (Inr (ustr ''DKRY5''), \<lparr>rng = 38, sent = []\<rparr>)"
proof -
  have "nonce_chars env0 (Suc (Suc (Suc (Suc (Suc 0))))) w0 =
      (Inr (ustr ''DKRY5''), \<lparr>rng = 38, sent = []\<rparr>)"
    by (simp add: random_choice_def tmp_string_def env0_def w0_def ustr_def)
  moreover have "nat (case Some 5 of None \<Rightarrow> 5 | Some n \<Rightarrow> n) = Suc (Suc (Suc (Suc (Suc 0))))"
    by simp
  ultimately show ?thesis by (simp only: generate_nonce_def)
qed

lemma example_params:
  "build_oauth_params env0 g0 w0 =
     (Inr [(ustr ''oauth_consumer_key'', PStr (ustr ''k'')),
           (ustr ''oauth_nonce'', PStr (ustr ''DKRY5'')),
           (ustr ''oauth_signature_method'', PStr (ustr ''HMAC-SHA1'')),
           (ustr ''oauth_timestamp'', PStr (ustr ''1000000000'')),
           (ustr ''oauth_version'', PStr (ustr ''1.0''))], \<lparr>rng = 38, sent = []\<rparr>)"
proof -
  have "str_int \<lfloor>time_time env0\<rfloor> = ustr ''1000000000''"
    by (simp add: env0_def str_int_def ustr_def)
  moreover have "api_key g0 = Inr (ustr ''k'')" by (simp add: api_key_def g0_def)
  ultimately show ?thesis by (simp add: build_oauth_params_def example_nonce)
qed

lemma example_signature:
  "\<exists>sig. fst (generate_signature env0 g0 (verb_name v) (ustr ''https://example.com'' @ path)
     [(ustr ''oauth_consumer_key'', PStr (ustr ''k'')),
      (ustr ''oauth_nonce'', PStr (ustr ''DKRY5'')),
      (ustr ''oauth_signature_method'', PStr (ustr ''HMAC-SHA1'')),
      (ustr ''oauth_timestamp'', PStr (ustr ''1000000000'')),
      (ustr ''oauth_version'', PStr (ustr ''1.0''))]) = Inr sig"
  if "encodable path"
proof -
  have "attr_api_secret g0 = Some (ustr ''s'')" by (simp add: g0_def)
  moreover have "ascii (ustr ''s'')" by (simp add: ascii_def ustr_def)
  moreover have "ascii (verb_name v)" by (cases v) (simp_all add: verb_name_def ascii_def ustr_def)
  moreover have "encodable (ustr ''https://example.com'' @ path)"
    using that by (simp add: encodable_def ustr_def)
  moreover have "encodable_params [(ustr ''oauth_consumer_key'', PStr (ustr ''k'')),
      (ustr ''oauth_nonce'', PStr (ustr ''DKRY5'')),
      (ustr ''oauth_signature_method'', PStr (ustr ''HMAC-SHA1'')),
      (ustr ''oauth_timestamp'', PStr (ustr ''1000000000'')),
      (ustr ''oauth_version'', PStr (ustr ''1.0''))]"
    by (simp add: encodable_params_def encodable_def ustr_def)
  ultimately show ?thesis using generate_signature_returns by blast
qed





text \<open>
  C7. When the signing succeeds, \<open>execute_workflow\<close> sends exactly one request, a
  POST to the jobs URL of the app. Without a payload it carries no JSON body and no
  headers; with \<open>payload=p\<close> its JSON body is \<open>p\<close> and its header is
  \<open>Content-Type: application/json\<close>. In both cases the query parameters are the same:
  the five OAuth parameters followed by \<open>oauth_signature\<close>.
\<close>

theorem execute_workflow_request:
  assumes "api_location self = Inr location"
    and "build_oauth_params env self w = (Inr params, w1)"
    and "fst (generate_signature env self (ustr ''POST'')
           (location @ ustr ''/v1/workflows/'' @ app_id @ ustr ''/jobs/'') params) = Inr sig"
  shows "(kwargs (ustr ''payload'') = None \<longrightarrow>
           sent (snd (execute_workflow env self app_id kwargs w)) =
             sent w @ [\<lparr>req_verb = POST,
                        req_url = location @ ustr ''/v1/workflows/'' @ app_id @ ustr ''/jobs/'',
                        req_params = params @ [(ustr ''oauth_signature'', PBytes sig)],
                        req_json = None, req_headers = None\<rparr>])
       \<and> (kwargs (ustr ''payload'') = Some p \<longrightarrow>
           sent (snd (execute_workflow env self app_id kwargs w)) =
             sent w @ [\<lparr>req_verb = POST,
                        req_url = location @ ustr ''/v1/workflows/'' @ app_id @ ustr ''/jobs/'',
                        req_params = params @ [(ustr ''oauth_signature'', PBytes sig)],
                        req_json = Some p,
                        req_headers = Some [(ustr ''Content-Type'', ustr ''application/json'')]\<rparr>])
       \<and> map fst params = [ustr ''oauth_consumer_key'', ustr ''oauth_nonce'',
             ustr ''oauth_signature_method'', ustr ''oauth_timestamp'', ustr ''oauth_version'']"
proof -
  have "sent (snd (execute_workflow env self app_id kwargs w)) =
      sent w @ [signed_request POST (location @ ustr ''/v1/workflows/'' @ app_id @ ustr ''/jobs/'')
                  params sig (kwargs (ustr ''payload''))]"
    using spec_call_sends [of self location env w params w1 POST
        "ustr ''/v1/workflows/'' @ app_id @ ustr ''/jobs/''" sig "kwargs (ustr ''payload'')"] assms
    by (simp add: execute_workflow_spec verb_name_def)
  then show ?thesis
    using build_oauth_params_keys [OF assms(2)]
    by (auto simp: signed_request_def json_header_def)
qed

theorem execute_workflow_request_witness:
  "\<exists>params w1 sig.
      api_location g0 = Inr (ustr ''https://example.com'')
    \<and> build_oauth_params env0 g0 w0 = (Inr params, w1)
    \<and> fst (generate_signature env0 g0 (ustr ''POST'')
           (ustr ''https://example.com'' @ ustr ''/v1/workflows/'' @ ustr ''app'' @ ustr ''/jobs/'')
           params) = Inr sig
    \<and> sent (snd (execute_workflow env0 g0 (ustr ''app'') Map.empty w0)) =
         sent w0 @ [\<lparr>req_verb = POST,
                    req_url = ustr ''https://example.com'' @ ustr ''/v1/workflows/'' @ ustr ''app'' @ ustr ''/jobs/'',
                    req_params = params @ [(ustr ''oauth_signature'', PBytes sig)],
                    req_json = None, req_headers = None\<rparr>]
    \<and> sent (snd (execute_workflow env0 g0 (ustr ''app'') [ustr ''payload'' \<mapsto> ()] w0)) =
         sent w0 @ [\<lparr>req_verb = POST,
                    req_url = ustr ''https://example.com'' @ ustr ''/v1/workflows/'' @ ustr ''app'' @ ustr ''/jobs/'',
                    req_params = params @ [(ustr ''oauth_signature'', PBytes sig)],
                    req_json = Some (),
                    req_headers = Some [(ustr ''Content-Type'', ustr ''application/json'')]\<rparr>]"
proof -
  have l: "api_location g0 = Inr (ustr ''https://example.com'')"
    by (simp add: api_location_def g0_def)
  have p: "encodable (ustr ''/v1/workflows/'' @ ustr ''app'' @ ustr ''/jobs/'')"
    by (simp add: encodable_def ustr_def)
  from example_signature [OF p, of POST] obtain sig where
    s: "fst (generate_signature env0 g0 (ustr ''POST'')
       (ustr ''https://example.com'' @ ustr ''/v1/workflows/'' @ ustr ''app'' @ ustr ''/jobs/'')
       [(ustr ''oauth_consumer_key'', PStr (ustr ''k'')),
        (ustr ''oauth_nonce'', PStr (ustr ''DKRY5'')),
        (ustr ''oauth_signature_method'', PStr (ustr ''HMAC-SHA1'')),
        (ustr ''oauth_timestamp'', PStr (ustr ''1000000000'')),
        (ustr ''oauth_version'', PStr (ustr ''1.0''))]) = Inr sig"
    by (auto simp: verb_name_def)
  from execute_workflow_request [OF l example_params s, of Map.empty "()"]
    execute_workflow_request [OF l example_params s, of "[ustr ''payload'' \<mapsto> ()]" "()"]
    l example_params s
  show ?thesis by auto
qed





subsection \<open>The hash functions on known inputs\<close>

text \<open>
  The definitions of SHA-1, HMAC and Base64 are checked against the examples of
  FIPS 180, RFC 2202 and RFC 4648. The computations run in the simplifier; the
  rules below keep every intermediate word in its normal form.
\<close>

lemma rotl_eval: "rotl n x = word_of_nat (unat (push_bit n x OR drop_bit (32 - n) x))"
  by (simp add: rotl_def)

lemma sha1_round_eval:
  "sha1_round f k (a, b, c, d, e) w =
     (word_of_nat (unat (rotl 5 a + f b c d + e + k + w)), a, rotl 30 b, c, d)"
  by simp

lemma chain_add_eval:
  "chain_add (h0, h1, h2, h3, h4) (a, b, c, d, e) =
     (word_of_nat (unat (h0 + a)), word_of_nat (unat (h1 + b)), word_of_nat (unat (h2 + c)),
      word_of_nat (unat (h3 + d)), word_of_nat (unat (h4 + e)))"
  by simp

lemma schedule_numeral:
  "schedule (numeral k) (w # rest) =
     w # schedule (pred_numeral k) (rest @ [rotl 1 (rest ! 12 XOR rest ! 7 XOR rest ! 1 XOR w)])"
  by (simp add: numeral_eq_Suc)

lemma replicate_numeral_eval: "replicate (numeral k) x = x # replicate (pred_numeral k) x"
  by (simp add: numeral_eq_Suc)

lemma ucast_byte_eval: "(ucast (w :: word32) :: byte) = of_nat (unat w mod 256)"
  by (simp add: word_eq_iff_unsigned [where ?'a = nat] unat_of_nat unsigned_ucast_eq take_bit_eq_mod)

lemma word_bytes_eval:
  "word_bytes w =
     [of_nat (unat (drop_bit 24 w) mod 256), of_nat (unat (drop_bit 16 w) mod 256),
      of_nat (unat (drop_bit 8 w) mod 256), of_nat (unat w mod 256)]"
  by (simp only: word_bytes_def ucast_byte_eval)

lemmas sha1_eval =
  sha1_def sha1_pad_def bstr_def be_word_def word_bytes_eval replicate_numeral_eval
  sha1_block_def sha1_init_def schedule_numeral rotl_eval sha1_round_eval chain_add_eval
  f_ch_def f_parity_def f_maj_def Let_def

lemma sha1_fips_one_block:
  "sha1 (bstr ''abc'') =
     [0xA9, 0x99, 0x3E, 0x36, 0x47, 0x06, 0x81, 0x6A, 0xBA, 0x3E,
      0x25, 0x71, 0x78, 0x50, 0xC2, 0x6C, 0x9C, 0xD0, 0xD8, 0x9D]"
  by (simp add: sha1_eval del: sha1_round.simps chain_add.simps)

lemma sha1_fips_two_blocks:
  "sha1 (bstr ''abcdbcdecdefdefgefghfghighijhijkijkljklmklmnlmnomnopnopq'') =
     [0x84, 0x98, 0x3E, 0x44, 0x1C, 0x3B, 0xD2, 0x6E, 0xBA, 0xAE,
      0x4A, 0xA1, 0xF9, 0x51, 0x29, 0xE5, 0xE5, 0x46, 0x70, 0xF1]"
  by (simp add: sha1_eval del: sha1_round.simps chain_add.simps)

lemma hmac_steps:
  assumes "hmac_key key = k"
    and "sha1 (map (\<lambda>b. b XOR 0x36) k @ msg) = inner"
    and "sha1 (map (\<lambda>b. b XOR 0x5C) k @ inner) = outer"
  shows "hmac_sha1 key msg = outer"
  using assms by (simp add: hmac_sha1_def)

lemma rfc2202_key:
  "hmac_key (bstr ''Jefe'') =
     [74, 101, 102, 101, 0, 0, 0, 0, 0, 0, 0, 0, 0, 0, 0, 0,
     0, 0, 0, 0, 0, 0, 0, 0, 0, 0, 0, 0, 0, 0, 0, 0,
     0, 0, 0, 0, 0, 0, 0, 0, 0, 0, 0, 0, 0, 0, 0, 0,
     0, 0, 0, 0, 0, 0, 0, 0, 0, 0, 0, 0, 0, 0, 0, 0]"
  by (simp add: hmac_key_def bstr_def replicate_numeral_eval)

lemma rfc2202_inner:
  "sha1 (map (\<lambda>b. b XOR 0x36)
     [74, 101, 102, 101, 0, 0, 0, 0, 0, 0, 0, 0, 0, 0, 0, 0,
     0, 0, 0, 0, 0, 0, 0, 0, 0, 0, 0, 0, 0, 0, 0, 0,
     0, 0, 0, 0, 0, 0, 0, 0, 0, 0, 0, 0, 0, 0, 0, 0,
     0, 0, 0, 0, 0, 0, 0, 0, 0, 0, 0, 0, 0, 0, 0, 0]
     @ bstr ''what do ya want for nothing?'') =
     [152, 133, 18, 68, 58, 249, 28, 87, 163, 140, 226, 220, 142, 195, 135, 150,
     108, 8, 222, 196]"
  by (simp add: sha1_eval del: sha1_round.simps chain_add.simps)

lemma rfc2202_outer:
  "sha1 (map (\<lambda>b. b XOR 0x5C)
     [74, 101, 102, 101, 0, 0, 0, 0, 0, 0, 0, 0, 0, 0, 0, 0,
     0, 0, 0, 0, 0, 0, 0, 0, 0, 0, 0, 0, 0, 0, 0, 0,
     0, 0, 0, 0, 0, 0, 0, 0, 0, 0, 0, 0, 0, 0, 0, 0,
     0, 0, 0, 0, 0, 0, 0, 0, 0, 0, 0, 0, 0, 0, 0, 0]
     @ [152, 133, 18, 68, 58, 249, 28, 87, 163, 140, 226, 220, 142, 195, 135, 150,
     108, 8, 222, 196]) =
     [0xEF, 0xFC, 0xDF, 0x6A, 0xE5, 0xEB, 0x2F, 0xA2, 0xD2, 0x74,
      0x16, 0xD5, 0xF1, 0x84, 0xDF, 0x9C, 0x25, 0x9A, 0x7C, 0x79]"
  by (simp add: sha1_eval del: sha1_round.simps chain_add.simps)

lemma hmac_rfc2202:
  "hmac_sha1 (bstr ''Jefe'') (bstr ''what do ya want for nothing?'') =
     [0xEF, 0xFC, 0xDF, 0x6A, 0xE5, 0xEB, 0x2F, 0xA2, 0xD2, 0x74,
      0x16, 0xD5, 0xF1, 0x84, 0xDF, 0x9C, 0x25, 0x9A, 0x7C, 0x79]"
  by (rule hmac_steps [OF rfc2202_key rfc2202_inner rfc2202_outer])

lemma b64encode_rfc4648:
  "b64encode (bstr ''foobar'') = bstr ''Zm9vYmFy''"
  "b64encode (bstr ''fooba'') = bstr ''Zm9vYmE=''"
  "b64encode (bstr ''foob'') = bstr ''Zm9vYg==''"
  "b64encode [] = []"
  by (simp_all add: bstr_def b64_char_def b64_alphabet_def)

subsection \<open>The known vector\<close>

lemma known_key:
  "hmac_key (bstr ''s&'') =
     [115, 38, 0, 0, 0, 0, 0, 0, 0, 0, 0, 0, 0, 0, 0, 0,
     0, 0, 0, 0, 0, 0, 0, 0, 0, 0, 0, 0, 0, 0, 0, 0,
     0, 0, 0, 0, 0, 0, 0, 0, 0, 0, 0, 0, 0, 0, 0, 0,
     0, 0, 0, 0, 0, 0, 0, 0, 0, 0, 0, 0, 0, 0, 0, 0]"
  by (simp add: hmac_key_def bstr_def replicate_numeral_eval)

lemma known_inner:
  "sha1 (map (\<lambda>b. b XOR 0x36)
     [115, 38, 0, 0, 0, 0, 0, 0, 0, 0, 0, 0, 0, 0, 0, 0,
     0, 0, 0, 0, 0, 0, 0, 0, 0, 0, 0, 0, 0, 0, 0, 0,
     0, 0, 0, 0, 0, 0, 0, 0, 0, 0, 0, 0, 0, 0, 0, 0,
     0, 0, 0, 0, 0, 0, 0, 0, 0, 0, 0, 0, 0, 0, 0, 0]
     @ bstr ''GET&https%3A%2F%2Fexample.com%2Fv1%2Fworkflows%2Fsubscription%2F&oauth_consumer_key%3Dk%26oauth_nonce%3Dabcde%26oauth_signature_method%3DHMAC-SHA1%26oauth_timestamp%3D1000000000%26oauth_version%3D1.0'') =
     [148, 3, 240, 19, 119, 251, 230, 248, 145, 23, 26, 81, 21, 5, 251, 33,
     86, 18, 116, 255]"
  by (simp add: sha1_eval del: sha1_round.simps chain_add.simps)

lemma known_outer:
  "sha1 (map (\<lambda>b. b XOR 0x5C)
     [115, 38, 0, 0, 0, 0, 0, 0, 0, 0, 0, 0, 0, 0, 0, 0,
     0, 0, 0, 0, 0, 0, 0, 0, 0, 0, 0, 0, 0, 0, 0, 0,
     0, 0, 0, 0, 0, 0, 0, 0, 0, 0, 0, 0, 0, 0, 0, 0,
     0, 0, 0, 0, 0, 0, 0, 0, 0, 0, 0, 0, 0, 0, 0, 0]
     @ [148, 3, 240, 19, 119, 251, 230, 248, 145, 23, 26, 81, 21, 5, 251, 33,
     86, 18, 116, 255]) =
     [14, 229, 43, 247, 156, 101, 229, 51, 187, 180, 254, 26, 131, 8, 239, 24,
     225, 196, 1, 191]"
  by (simp add: sha1_eval del: sha1_round.simps chain_add.simps)

lemma known_hmac:
  "hmac_sha1 (bstr ''s&'') (bstr ''GET&https%3A%2F%2Fexample.com%2Fv1%2Fworkflows%2Fsubscription%2F&oauth_consumer_key%3Dk%26oauth_nonce%3Dabcde%26oauth_signature_method%3DHMAC-SHA1%26oauth_timestamp%3D1000000000%26oauth_version%3D1.0'') =
     [14, 229, 43, 247, 156, 101, 229, 51, 187, 180, 254, 26, 131, 8, 239, 24,
     225, 196, 1, 191]"
  by (rule hmac_steps [OF known_key known_inner known_outer])

lemma known_base64:
  "b64encode [14, 229, 43, 247, 156, 101, 229, 51, 187, 180, 254, 26, 131, 8, 239, 24,
     225, 196, 1, 191] =
     bstr ''DuUr95xl5TO7tP4agwjvGOHEAb8=''"
  by (simp add: bstr_def b64_char_def b64_alphabet_def)

lemma known_base_string:
  "fst (generate_signature env
          \<lparr>attr_api_location = location, attr_api_key = key, attr_api_secret = Some (ustr ''s'')\<rparr>
          (ustr ''GET'') (ustr ''https://example.com/v1/workflows/subscription/'')
          [(ustr ''oauth_consumer_key'', PStr (ustr ''k'')),
           (ustr ''oauth_nonce'', PStr (ustr ''abcde'')),
           (ustr ''oauth_signature_method'', PStr (ustr ''HMAC-SHA1'')),
           (ustr ''oauth_timestamp'', PStr (ustr ''1000000000'')),
           (ustr ''oauth_version'', PStr (ustr ''1.0''))]) =
     Inr (b64encode (hmac_sha1 (bstr ''s&'') (bstr ''GET&https%3A%2F%2Fexample.com%2Fv1%2Fworkflows%2Fsubscription%2F&oauth_consumer_key%3Dk%26oauth_nonce%3Dabcde%26oauth_signature_method%3DHMAC-SHA1%26oauth_timestamp%3D1000000000%26oauth_version%3D1.0'')))"
  by (simp add: generate_signature_def sorted_items_def urlencode_def upper_def api_secret_def
      ascii_encode_def encoding_defs)

text \<open>
  C1. For the method \<open>GET\<close>, the URL \<open>https://example.com/v1/workflows/subscription/\<close>,
  the five OAuth parameters of the known vector and the secret \<open>s\<close>,
  \<open>generate_signature\<close> returns \<open>DuUr95xl5TO7tP4agwjvGOHEAb8=\<close>: the Base64 form of the
  HMAC-SHA1 digest, under the key \<open>s&\<close>, of the base string made of \<open>GET\<close>, the
  percent-encoded URL and the percent-encoded string of the sorted parameters. The
  value is the one Python's \<open>hmac\<close>, \<open>hashlib\<close> and \<open>base64\<close> give for that key and
  base string. It holds in every environment and for every location and key of
  the object.
\<close>

theorem known_vector:
  "fst (generate_signature env
          \<lparr>attr_api_location = location, attr_api_key = key, attr_api_secret = Some (ustr ''s'')\<rparr>
          (ustr ''GET'') (ustr ''https://example.com/v1/workflows/subscription/'')
          [(ustr ''oauth_consumer_key'', PStr (ustr ''k'')),
           (ustr ''oauth_nonce'', PStr (ustr ''abcde'')),
           (ustr ''oauth_signature_method'', PStr (ustr ''HMAC-SHA1'')),
           (ustr ''oauth_timestamp'', PStr (ustr ''1000000000'')),
           (ustr ''oauth_version'', PStr (ustr ''1.0''))]) =
     Inr (bstr ''DuUr95xl5TO7tP4agwjvGOHEAb8='')
   \<and> bstr ''DuUr95xl5TO7tP4agwjvGOHEAb8='' =
       b64encode (hmac_sha1 (bstr ''s&'') (bstr ''GET&https%3A%2F%2Fexample.com%2Fv1%2Fworkflows%2Fsubscription%2F&oauth_consumer_key%3Dk%26oauth_nonce%3Dabcde%26oauth_signature_method%3DHMAC-SHA1%26oauth_timestamp%3D1000000000%26oauth_version%3D1.0''))"
  by (simp only: known_base_string known_hmac known_base64 simp_thms)

end
